theory Spec2Isabelle
  imports Main
begin

section \<open>The Go library functions the program calls\<close>

text \<open>
  A Go \<open>string\<close> is a byte sequence, modelled as \<^typ>\<open>string\<close>; a rune is a code point.
  \<open>HasPrefix\<close>, \<open>Contains\<close>, \<open>ReplaceAll\<close>, \<open>Join\<close> and \<open>Split\<close> work on bytes; \<open>TrimSpace\<close>,
  \<open>ToLower\<close> and \<open>ToUpper\<close> read the string as UTF-8.
\<close>

definition HasPrefix :: "string \<Rightarrow> string \<Rightarrow> bool" where
  "HasPrefix s p = (take (length p) s = p)"

definition TrimPrefix :: "string \<Rightarrow> string \<Rightarrow> string" where
  "TrimPrefix s p = (if HasPrefix s p then drop (length p) s else s)"

fun Contains :: "string \<Rightarrow> string \<Rightarrow> bool" where
  "Contains [] sub = (sub = [])"
| "Contains (c # cs) sub = (HasPrefix (c # cs) sub \<or> Contains cs sub)"

text \<open>
  \<open>strings.ReplaceAll(s, old, new)\<close>: the non-overlapping occurrences of \<open>old\<close>, found from
  left to right, are replaced by \<open>new\<close>. For an empty \<open>old\<close> Go inserts \<open>new\<close> before every
  rune and at the end.
\<close>

function ReplaceAll :: "string \<Rightarrow> string \<Rightarrow> string \<Rightarrow> string" where
  "ReplaceAll [] old new = (if old = [] then new else [])"
| "ReplaceAll (c # cs) old new =
     (if old = [] then new @ c # ReplaceAll cs old new
      else if HasPrefix (c # cs) old then new @ ReplaceAll (drop (length old) (c # cs)) old new
      else c # ReplaceAll cs old new)"
  by pat_completeness auto
termination
  by (relation "measure (\<lambda>(s, old, new). length s)") auto

fun Join :: "string list \<Rightarrow> string \<Rightarrow> string" where
  "Join [] sep = []"
| "Join [x] sep = x"
| "Join (x # y # ys) sep = x @ sep @ Join (y # ys) sep"

text \<open>
  \<open>utf8.DecodeRune\<close>: the first rune of \<open>p\<close> and its width in bytes. An encoding that is not
  valid (a stray continuation byte, a surrogate, an overlong form, a value above U+10FFFF, a
  sequence cut short) is one byte wide and decodes to \<open>RuneError\<close>.
\<close>

type_synonym rune = nat

definition RuneError :: rune where
  "RuneError = 0xFFFD"

definition byte :: "char \<Rightarrow> nat" where
  "byte c = of_char c"

definition DecodeRune :: "string \<Rightarrow> rune \<times> nat" where
  "DecodeRune p =
     (case p of
        [] \<Rightarrow> (RuneError, 0)
      | c # cs \<Rightarrow>
          (let p0 = byte c in
           if p0 < 0x80 then (p0, 1)
           else if p0 < 0xC2 \<or> 0xF4 < p0 then (RuneError, 1)
           else
             (let sz = (if p0 < 0xE0 then 2 else if p0 < 0xF0 then 3 else 4);
                  lo = (if p0 = 0xE0 then 0xA0 else if p0 = 0xF0 then 0x90 else 0x80);
                  hi = (if p0 = 0xED then 0x9F else if p0 = 0xF4 then 0x8F else 0xBF)
              in if length p < sz then (RuneError, 1)
                 else
                   (let b1 = byte (p ! 1) in
                    if b1 < lo \<or> hi < b1 then (RuneError, 1)
                    else if sz \<le> 2 then ((p0 mod 32) * 64 + b1 mod 64, 2)
                    else
                      (let b2 = byte (p ! 2) in
                       if b2 < 0x80 \<or> 0xBF < b2 then (RuneError, 1)
                       else if sz \<le> 3
                       then ((p0 mod 16) * 4096 + (b1 mod 64) * 64 + b2 mod 64, 3)
                       else
                         (let b3 = byte (p ! 3) in
                          if b3 < 0x80 \<or> 0xBF < b3 then (RuneError, 1)
                          else ((p0 mod 8) * 262144 + (b1 mod 64) * 4096
                                + (b2 mod 64) * 64 + b3 mod 64, 4)))))))"

lemma DecodeRune_size: "p \<noteq> [] \<Longrightarrow> (r, width) = DecodeRune p \<Longrightarrow> 0 < width"
  by (cases p) (auto simp add: DecodeRune_def Let_def split: if_splits)

text \<open>The runes of a string, as \<open>for _, c := range s\<close> delivers them.\<close>

function runes :: "string \<Rightarrow> rune list" where
  "runes s = (if s = [] then [] else (case DecodeRune s of (r, width) \<Rightarrow> r # runes (drop width s)))"
  by pat_completeness auto
termination
  apply (relation "measure length")
   apply simp
  subgoal for s r width using DecodeRune_size [of s r width] by (cases s) auto
  done

declare runes.simps [simp del]

text \<open>
  \<open>utf8.AppendRune\<close>: the UTF-8 encoding of a rune; a surrogate or a value above U+10FFFF
  is encoded as \<open>RuneError\<close>.
\<close>

definition EncodeRune :: "rune \<Rightarrow> string" where
  "EncodeRune r =
     (if r \<le> 0x7F then [char_of r]
      else if r \<le> 0x7FF then [char_of (0xC0 + r div 64), char_of (0x80 + r mod 64)]
      else if 0x10FFFF < r \<or> (0xD800 \<le> r \<and> r \<le> 0xDFFF)
      then [CHR 0xEF, CHR 0xBF, CHR 0xBD]
      else if r \<le> 0xFFFF
      then [char_of (0xE0 + r div 4096), char_of (0x80 + (r div 64) mod 64),
            char_of (0x80 + r mod 64)]
      else [char_of (0xF0 + r div 262144), char_of (0x80 + (r div 4096) mod 64),
            char_of (0x80 + (r div 64) mod 64), char_of (0x80 + r mod 64)])"

text \<open>
  \<open>strings.Map\<close> for a mapping that drops no rune: every rune is replaced by the encoding of
  its image, and so is every byte that is not valid UTF-8 (it is read as \<open>RuneError\<close>).
\<close>

definition Map :: "(rune \<Rightarrow> rune) \<Rightarrow> string \<Rightarrow> string" where
  "Map mapping s = concat (map (\<lambda>c. EncodeRune (mapping c)) (runes s))"

text \<open>\<open>unicode.IsSpace\<close>: the code points with the Unicode property White_Space.\<close>

definition IsSpace :: "rune \<Rightarrow> bool" where
  "IsSpace r =
     ((0x09 \<le> r \<and> r \<le> 0x0D) \<or> r = 0x20 \<or> r = 0x85 \<or> r = 0xA0 \<or> r = 0x1680
      \<or> (0x2000 \<le> r \<and> r \<le> 0x200A) \<or> r = 0x2028 \<or> r = 0x2029 \<or> r = 0x202F
      \<or> r = 0x205F \<or> r = 0x3000)"

text \<open>
  \<open>utf8.DecodeLastRune\<close>: the last rune of \<open>p\<close> and its width. It starts at the nearest byte
  that can begin a rune among the up to three bytes before the last one, and the rune
  decoded from there has to end where \<open>p\<close> ends.
\<close>

definition RuneStart :: "char \<Rightarrow> bool" where
  "RuneStart b = (byte b div 64 \<noteq> 2)"

definition DecodeLastRune :: "string \<Rightarrow> rune \<times> nat" where
  "DecodeLastRune p =
     (let end = length p in
      if end = 0 then (RuneError, 0)
      else if byte (p ! (end - 1)) < 0x80 then (byte (p ! (end - 1)), 1)
      else
        (case find (\<lambda>start. RuneStart (p ! start))
                (map (\<lambda>k. end - k) (filter (\<lambda>k. k \<le> end) [2, 3, 4])) of
           None \<Rightarrow> (RuneError, 1)
         | Some start \<Rightarrow>
             (case DecodeRune (drop start p) of (r, width) \<Rightarrow>
                if start + width \<noteq> end then (RuneError, 1) else (r, width))))"

lemma find_Some_member: "find P xs = Some x \<Longrightarrow> x \<in> set xs"
  by (induction xs) (auto split: if_splits)

lemma DecodeLastRune_size:
  assumes ne: "p \<noteq> []" and eq: "(r, width) = DecodeLastRune p"
  shows "0 < width"
proof (cases "byte (p ! (length p - 1)) < 0x80")
  case True
  with ne eq show ?thesis by (simp add: DecodeLastRune_def Let_def)
next
  case False
  show ?thesis
  proof (cases "find (\<lambda>start. RuneStart (p ! start))
              (map (\<lambda>k. length p - k) (filter (\<lambda>k. k \<le> length p) [2, 3, 4]))")
    case None
    with ne False eq show ?thesis by (simp add: DecodeLastRune_def Let_def)
  next
    case (Some start)
    from find_Some_member [OF Some] ne have "start < length p" by (auto split: if_splits)
    then have "drop start p \<noteq> []" by simp
    obtain r' w' where d: "(r', w') = DecodeRune (drop start p)"
      by (metis surj_pair)
    from DecodeRune_size [OF \<open>drop start p \<noteq> []\<close> d] have "0 < w'" .
    with ne False Some eq d [symmetric] show ?thesis
      by (simp add: DecodeLastRune_def Let_def split: if_splits)
  qed
qed

text \<open>
  \<open>strings.TrimSpace\<close>: the white space runes at the start are removed, then those at the
  end. Bytes that are not valid UTF-8 are not white space.
\<close>

function trimLeft :: "string \<Rightarrow> string" where
  "trimLeft s =
     (if s = [] then []
      else (case DecodeRune s of (r, width) \<Rightarrow> if IsSpace r then trimLeft (drop width s) else s))"
  by pat_completeness auto
termination
  apply (relation "measure length")
   apply simp
  subgoal for s r width using DecodeRune_size [of s r width] by (cases s) auto
  done

function trimRight :: "string \<Rightarrow> string" where
  "trimRight s =
     (if s = [] then []
      else (case DecodeLastRune s of (r, width) \<Rightarrow>
              if IsSpace r then trimRight (take (length s - width) s) else s))"
  by pat_completeness auto
termination
  apply (relation "measure length")
   apply simp
  subgoal for s r width using DecodeLastRune_size [of s r width] by (cases s) auto
  done

declare trimLeft.simps [simp del] trimRight.simps [simp del]

definition TrimSpace :: "string \<Rightarrow> string" where
  "TrimSpace s = trimRight (trimLeft s)"

text \<open>
  \<open>strings.ToLower\<close> and \<open>strings.ToUpper\<close>. A string of ASCII bytes is mapped byte by byte.
  Any other string is mapped rune by rune with \<open>unicode.ToLower\<close> (\<open>unicode.ToUpper\<close>), which
  maps the ASCII letters itself and looks every rune above U+007F up in the case tables of
  the Go release. Those tables are data of the Go library: they are the parameters
  \<open>lowerTable\<close> and \<open>upperTable\<close> here, and everything below holds whatever they are.
\<close>

definition toLowerChar :: "char \<Rightarrow> char" where
  "toLowerChar c =
     (let n = (of_char c :: nat) in if 65 \<le> n \<and> n \<le> 90 then char_of (n + 32) else c)"

definition unicode_ToLower :: "(rune \<Rightarrow> rune) \<Rightarrow> rune \<Rightarrow> rune" where
  "unicode_ToLower lowerTable r =
     (if r \<le> 0x7F then (if 65 \<le> r \<and> r \<le> 90 then r + 32 else r) else lowerTable r)"

definition ToLower :: "(rune \<Rightarrow> rune) \<Rightarrow> string \<Rightarrow> string" where
  "ToLower lowerTable s =
     (if list_all (\<lambda>c. byte c < 0x80) s then map toLowerChar s
      else Map (unicode_ToLower lowerTable) s)"

definition toUpperChar :: "char \<Rightarrow> char" where
  "toUpperChar c =
     (let n = (of_char c :: nat) in if 97 \<le> n \<and> n \<le> 122 then char_of (n - 32) else c)"

definition unicode_ToUpper :: "(rune \<Rightarrow> rune) \<Rightarrow> rune \<Rightarrow> rune" where
  "unicode_ToUpper upperTable r =
     (if r \<le> 0x7F then (if 97 \<le> r \<and> r \<le> 122 then r - 32 else r) else upperTable r)"

definition ToUpper :: "(rune \<Rightarrow> rune) \<Rightarrow> string \<Rightarrow> string" where
  "ToUpper upperTable s =
     (if list_all (\<lambda>c. byte c < 0x80) s then map toUpperChar s
      else Map (unicode_ToUpper upperTable) s)"

text \<open>
  \<open>strings.Split(s, sep)\<close> for a non-empty separator; for an empty one Go splits after
  every rune.
\<close>

function Split_from :: "string \<Rightarrow> string \<Rightarrow> string \<Rightarrow> string list" where
  "Split_from [] sep piece = [piece]"
| "Split_from (c # cs) sep piece =
     (if sep = [] then (if cs = [] then [[c]] else [c] # Split_from cs sep [])
      else if HasPrefix (c # cs) sep then piece # Split_from (drop (length sep) (c # cs)) sep []
      else Split_from cs sep (piece @ [c]))"
  by pat_completeness auto
termination
  by (relation "measure (\<lambda>(s, sep, piece). length s)") auto

definition Split :: "string \<Rightarrow> string \<Rightarrow> string list" where
  "Split s sep = (if s = [] \<and> sep = [] then [] else Split_from s sep [])"

text \<open>
  \<open>strconv.ParseInt(s, 10, 64)\<close>: an optional sign, then one or more decimal digits; the
  value must fit a signed 64-bit integer. \<open>None\<close> stands for the error return (syntax or
  range).
\<close>

definition isDigit :: "char \<Rightarrow> bool" where
  "isDigit c = (let n = (of_char c :: nat) in 48 \<le> n \<and> n \<le> 57)"

definition digitVal :: "char \<Rightarrow> nat" where
  "digitVal c = of_char c - 48"

definition ParseUint :: "string \<Rightarrow> nat option" where
  "ParseUint s =
     (if s = [] then None
      else if \<not> list_all isDigit s then None
      else (let un = foldl (\<lambda>acc c. acc * 10 + digitVal c) 0 s
            in if un \<ge> 2 ^ 64 then None else Some un))"

definition ParseInt :: "string \<Rightarrow> int option" where
  "ParseInt s =
     (if s = [] then None
      else (let neg = (hd s = CHR ''-'');
                s1 = (if hd s = CHR ''+'' \<or> hd s = CHR ''-'' then tl s else s)
            in case ParseUint s1 of
                 None \<Rightarrow> None
               | Some un \<Rightarrow>
                   if \<not> neg \<and> un \<ge> 2 ^ 63 then None
                   else if neg \<and> un > 2 ^ 63 then None
                   else Some (if neg then - int un else int un)))"

section \<open>The monitor entity and the remote API\<close>

text \<open>
  JSON values as \<open>encoding/json\<close> delivers them: a number keeps its literal text, an object
  keeps its members in document order.
\<close>

datatype json =
    JNull
  | JBool bool
  | JNum string
  | JStr string
  | JArr "json list"
  | JObj "(string \<times> json) list"

record Monitor =
  ID :: int
  Name :: string
  Type :: string
  Query :: string
  Message :: string
  Tags :: "string list"
  Options :: "(string \<times> json) list"
  OverallState :: string
  CreatedAt :: int
  Modified :: int

text \<open>
  A request as the client sends it, and the history of requests sent so far. The remote
  collection is outside the program: its reply to a request is an arbitrary function of
  everything it has been sent before. An error reply (\<open>Inl\<close>) carries the text of the Go
  error the client method returns (transport failure, status other than 200, undecodable body).
\<close>

datatype request =
    GetMonitors "string option" "string option"
  | GetMonitorById int
  | PostMonitor Monitor
  | PutMonitor int Monitor
  | DeleteMonitorById int

type_synonym history = "request list"

type_synonym 'a result = "string + 'a"

record api =
  list_reply :: "history \<Rightarrow> string option \<Rightarrow> string option \<Rightarrow> Monitor list result"
  get_reply :: "history \<Rightarrow> int \<Rightarrow> Monitor result"
  create_reply :: "history \<Rightarrow> Monitor \<Rightarrow> Monitor result"
  update_reply :: "history \<Rightarrow> int \<Rightarrow> Monitor \<Rightarrow> Monitor result"
  delete_reply :: "history \<Rightarrow> int \<Rightarrow> string option"

definition CreateMonitor :: "api \<Rightarrow> Monitor \<Rightarrow> history \<Rightarrow> Monitor result \<times> history" where
  "CreateMonitor c monitor h = (create_reply c h monitor, h @ [PostMonitor monitor])"

definition UpdateMonitor :: "api \<Rightarrow> int \<Rightarrow> Monitor \<Rightarrow> history \<Rightarrow> Monitor result \<times> history" where
  "UpdateMonitor c monitorID monitor h =
     (update_reply c h monitorID monitor, h @ [PutMonitor monitorID monitor])"

definition ListMonitors :: "api \<Rightarrow> string list \<Rightarrow> string \<Rightarrow> history \<Rightarrow> Monitor list result \<times> history" where
  "ListMonitors c tags searchText h =
     (let tagList = map (\<lambda>tag. if HasPrefix tag ''!='' then ''!'' @ TrimPrefix tag ''!='' else tag) tags;
          monitor_tags = (if length tags > 0 then Some (Join tagList '','') else None);
          query = (if searchText \<noteq> [] then Some searchText else None)
      in (list_reply c h monitor_tags query, h @ [GetMonitors monitor_tags query]))"

definition GetMonitor :: "api \<Rightarrow> int \<Rightarrow> history \<Rightarrow> Monitor result \<times> history" where
  "GetMonitor c monitorID h = (get_reply c h monitorID, h @ [GetMonitorById monitorID])"

definition DeleteMonitor :: "api \<Rightarrow> int \<Rightarrow> history \<Rightarrow> string option \<times> history" where
  "DeleteMonitor c monitorID h = (delete_reply c h monitorID, h @ [DeleteMonitorById monitorID])"

section \<open>Timestamps\<close>

text \<open>
  \<open>json.Unmarshal\<close> into a Go \<open>string\<close> and into an \<open>int64\<close>, on one JSON value: \<open>null\<close>
  leaves the target at its zero value without an error; a value of another kind is an
  error (\<open>None\<close>); a number literal must parse as a signed 64-bit integer.
\<close>

definition unmarshal_string :: "json \<Rightarrow> string option" where
  "unmarshal_string data =
     (case data of JStr s \<Rightarrow> Some s | JNull \<Rightarrow> Some [] | _ \<Rightarrow> None)"

definition unmarshal_int64 :: "json \<Rightarrow> int option" where
  "unmarshal_int64 data =
     (case data of JNum literal \<Rightarrow> ParseInt literal | JNull \<Rightarrow> Some 0 | _ \<Rightarrow> None)"

text \<open>
  \<open>Timestamp.UnmarshalJSON\<close>: the error returned and the value stored in the receiver.
\<close>

definition Timestamp_UnmarshalJSON :: "json \<Rightarrow> string option \<times> int" where
  "Timestamp_UnmarshalJSON data =
     (case unmarshal_string data of
        Some str \<Rightarrow>
          (case ParseInt str of
             Some val \<Rightarrow> (None, val)
           | None \<Rightarrow> (None, 0))
      | None \<Rightarrow>
          (case unmarshal_int64 data of
             None \<Rightarrow> (None, 0)
           | Some val \<Rightarrow> (None, val)))"

section \<open>Tag mutation\<close>

text \<open>
  \<open>AddTagsToMonitor\<close>: the lookup table \<open>existingTags\<close> is filled from the tags the monitor
  has when it is read, and is not written to while \<open>tagsToAdd\<close> is traversed.
\<close>

fun add_tags_loop :: "(string \<Rightarrow> bool) \<Rightarrow> string list \<Rightarrow> string list \<Rightarrow> string list" where
  "add_tags_loop existingTags [] tags = tags"
| "add_tags_loop existingTags (tag # rest) tags =
     add_tags_loop existingTags rest (if \<not> existingTags tag then tags @ [tag] else tags)"

text \<open>
  \<open>addTags\<close> and \<open>removeTags\<close> are what \<open>AddTagsToMonitor\<close> and \<open>RemoveTagsFromMonitor\<close> do
  to the monitor they have read, before they write it back.
\<close>

definition addTags :: "Monitor \<Rightarrow> string list \<Rightarrow> Monitor" where
  "addTags monitor tagsToAdd =
     (let existingTags = (\<lambda>tag. tag \<in> set (Tags monitor))
      in monitor\<lparr>Tags := add_tags_loop existingTags tagsToAdd (Tags monitor)\<rparr>)"

definition AddTagsToMonitor :: "api \<Rightarrow> int \<Rightarrow> string list \<Rightarrow> history \<Rightarrow> Monitor result \<times> history" where
  "AddTagsToMonitor c monitorID tagsToAdd h =
     (case GetMonitor c monitorID h of
        (Inl err, h1) \<Rightarrow> (Inl err, h1)
      | (Inr monitor, h1) \<Rightarrow> UpdateMonitor c monitorID (addTags monitor tagsToAdd) h1)"

fun remove_tags_loop :: "(string \<Rightarrow> bool) \<Rightarrow> string list \<Rightarrow> string list \<Rightarrow> string list" where
  "remove_tags_loop tagsToRemoveMap [] newTags = newTags"
| "remove_tags_loop tagsToRemoveMap (tag # rest) newTags =
     remove_tags_loop tagsToRemoveMap rest
       (if \<not> tagsToRemoveMap tag then newTags @ [tag] else newTags)"

definition removeTags :: "Monitor \<Rightarrow> string list \<Rightarrow> Monitor" where
  "removeTags monitor tagsToRemove =
     (let tagsToRemoveMap = (\<lambda>tag. tag \<in> set tagsToRemove)
      in monitor\<lparr>Tags := remove_tags_loop tagsToRemoveMap (Tags monitor) []\<rparr>)"

definition RemoveTagsFromMonitor :: "api \<Rightarrow> int \<Rightarrow> string list \<Rightarrow> history \<Rightarrow> Monitor result \<times> history" where
  "RemoveTagsFromMonitor c monitorID tagsToRemove h =
     (case GetMonitor c monitorID h of
        (Inl err, h1) \<Rightarrow> (Inl err, h1)
      | (Inr monitor, h1) \<Rightarrow> UpdateMonitor c monitorID (removeTags monitor tagsToRemove) h1)"

section \<open>Upsert\<close>

definition FindMonitorByName :: "api \<Rightarrow> string \<Rightarrow> history \<Rightarrow> Monitor option result \<times> history" where
  "FindMonitorByName c name h =
     (case ListMonitors c [] [] h of
        (Inl err, h1) \<Rightarrow> (Inl err, h1)
      | (Inr monitors, h1) \<Rightarrow> (Inr (find (\<lambda>monitor. Name monitor = name) monitors), h1))"

text \<open>The Go function returns \<open>(*Monitor, bool, error)\<close>: here the result and the flag.\<close>

definition UpsertMonitor :: "api \<Rightarrow> Monitor \<Rightarrow> history \<Rightarrow> (Monitor result \<times> bool) \<times> history" where
  "UpsertMonitor c monitor h =
     (case FindMonitorByName c (Name monitor) h of
        (Inl err, h1) \<Rightarrow> ((Inl err, False), h1)
      | (Inr (Some existing), h1) \<Rightarrow>
          (case UpdateMonitor c (ID existing) monitor h1 of (updated, h2) \<Rightarrow> ((updated, False), h2))
      | (Inr None, h1) \<Rightarrow>
          (case CreateMonitor c monitor h1 of (created, h2) \<Rightarrow> ((created, True), h2)))"

section \<open>Batch operations over the monitors matching a filter\<close>

fun hasExactTag :: "string list \<Rightarrow> string \<Rightarrow> bool" where
  "hasExactTag [] want = False"
| "hasExactTag (t # ts) want = (if t = want then True else hasExactTag ts want)"

text \<open>
  The selection loop that \<open>DeleteMonitorsByFilter\<close>, \<open>AddTagsToMonitors\<close> and
  \<open>RemoveTagsFromMonitors\<close> each spell out: a monitor is kept when, for every non-empty one
  of service, env and namespace, its tags hold the exact tag. The search through the tags
  is the loop of \<open>hasExactTag\<close>.
\<close>

definition matchesFilters :: "string \<Rightarrow> string \<Rightarrow> string \<Rightarrow> Monitor \<Rightarrow> bool" where
  "matchesFilters service env namespace monitor =
     (let monitorTags = Tags monitor;
          matches = True;
          matches = (if service \<noteq> [] then
                       (if \<not> hasExactTag monitorTags (''service:'' @ service) then False else matches)
                     else matches);
          matches = (if env \<noteq> [] then
                       (if \<not> hasExactTag monitorTags (''env:'' @ env) then False else matches)
                     else matches);
          matches = (if namespace \<noteq> [] then
                       (if \<not> hasExactTag monitorTags (''namespace:'' @ namespace) then False else matches)
                     else matches)
      in matches)"

text \<open>
  An entry of a batch report: the Go map with the keys \<open>id\<close>, \<open>name\<close>, \<open>status\<close> and, after a
  successful tag mutation, \<open>tags\<close>.
\<close>

record entry =
  entry_id :: int
  entry_name :: string
  entry_status :: string
  entry_tags :: "string list option"

text \<open>
  The loop over \<open>filteredMonitors\<close> in each of the three functions: one call per monitor, one
  entry appended per call, and the next monitor follows whatever the call returned.
\<close>

fun delete_each :: "api \<Rightarrow> Monitor list \<Rightarrow> entry list \<Rightarrow> history \<Rightarrow> entry list \<times> history" where
  "delete_each c [] results h = (results, h)"
| "delete_each c (monitor # rest) results h =
     (case DeleteMonitor c (ID monitor) h of
        (Some err, h1) \<Rightarrow>
          delete_each c rest
            (results @ [\<lparr>entry_id = ID monitor, entry_name = Name monitor,
                         entry_status = ''failed: '' @ err, entry_tags = None\<rparr>]) h1
      | (None, h1) \<Rightarrow>
          delete_each c rest
            (results @ [\<lparr>entry_id = ID monitor, entry_name = Name monitor,
                         entry_status = ''deleted'', entry_tags = None\<rparr>]) h1)"

definition DeleteMonitorsByFilter ::
  "api \<Rightarrow> string \<Rightarrow> string \<Rightarrow> string \<Rightarrow> string list \<Rightarrow> history \<Rightarrow> entry list result \<times> history" where
  "DeleteMonitorsByFilter c service env namespace tags h =
     (case ListMonitors c tags [] h of
        (Inl err, h1) \<Rightarrow> (Inl err, h1)
      | (Inr monitors, h1) \<Rightarrow>
          (let filteredMonitors = filter (matchesFilters service env namespace) monitors
           in case delete_each c filteredMonitors [] h1 of (results, h2) \<Rightarrow> (Inr results, h2)))"

fun add_tags_each ::
  "api \<Rightarrow> string list \<Rightarrow> Monitor list \<Rightarrow> entry list \<Rightarrow> history \<Rightarrow> entry list \<times> history" where
  "add_tags_each c tagsToAdd [] results h = (results, h)"
| "add_tags_each c tagsToAdd (monitor # rest) results h =
     (case AddTagsToMonitor c (ID monitor) tagsToAdd h of
        (Inl err, h1) \<Rightarrow>
          add_tags_each c tagsToAdd rest
            (results @ [\<lparr>entry_id = ID monitor, entry_name = Name monitor,
                         entry_status = ''failed: '' @ err, entry_tags = None\<rparr>]) h1
      | (Inr updated, h1) \<Rightarrow>
          add_tags_each c tagsToAdd rest
            (results @ [\<lparr>entry_id = ID updated, entry_name = Name updated,
                         entry_status = ''updated'', entry_tags = Some (Tags updated)\<rparr>]) h1)"

definition AddTagsToMonitors ::
  "api \<Rightarrow> string \<Rightarrow> string \<Rightarrow> string \<Rightarrow> string list \<Rightarrow> string list \<Rightarrow> history
     \<Rightarrow> entry list result \<times> history" where
  "AddTagsToMonitors c service env namespace tags tagsToAdd h =
     (case ListMonitors c tags [] h of
        (Inl err, h1) \<Rightarrow> (Inl err, h1)
      | (Inr monitors, h1) \<Rightarrow>
          (let filteredMonitors = filter (matchesFilters service env namespace) monitors
           in case add_tags_each c tagsToAdd filteredMonitors [] h1 of
                (results, h2) \<Rightarrow> (Inr results, h2)))"

fun remove_tags_each ::
  "api \<Rightarrow> string list \<Rightarrow> Monitor list \<Rightarrow> entry list \<Rightarrow> history \<Rightarrow> entry list \<times> history" where
  "remove_tags_each c tagsToRemove [] results h = (results, h)"
| "remove_tags_each c tagsToRemove (monitor # rest) results h =
     (case RemoveTagsFromMonitor c (ID monitor) tagsToRemove h of
        (Inl err, h1) \<Rightarrow>
          remove_tags_each c tagsToRemove rest
            (results @ [\<lparr>entry_id = ID monitor, entry_name = Name monitor,
                         entry_status = ''failed: '' @ err, entry_tags = None\<rparr>]) h1
      | (Inr updated, h1) \<Rightarrow>
          remove_tags_each c tagsToRemove rest
            (results @ [\<lparr>entry_id = ID updated, entry_name = Name updated,
                         entry_status = ''updated'', entry_tags = Some (Tags updated)\<rparr>]) h1)"

definition RemoveTagsFromMonitors ::
  "api \<Rightarrow> string \<Rightarrow> string \<Rightarrow> string \<Rightarrow> string list \<Rightarrow> string list \<Rightarrow> history
     \<Rightarrow> entry list result \<times> history" where
  "RemoveTagsFromMonitors c service env namespace tags tagsToRemove h =
     (case ListMonitors c tags [] h of
        (Inl err, h1) \<Rightarrow> (Inl err, h1)
      | (Inr monitors, h1) \<Rightarrow>
          (let filteredMonitors = filter (matchesFilters service env namespace) monitors
           in case remove_tags_each c tagsToRemove filteredMonitors [] h1 of
                (results, h2) \<Rightarrow> (Inr results, h2)))"

section \<open>State canonicalization and the state post-filter\<close>

lemma HasPrefix_length: "HasPrefix s p \<Longrightarrow> length p \<le> length s"
proof -
  assume "HasPrefix s p"
  then have "length (take (length p) s) = length p" by (simp add: HasPrefix_def)
  then show ?thesis by simp
qed

lemma ReplaceAll_length_le:
  "old \<noteq> [] \<Longrightarrow> length new \<le> length old \<Longrightarrow> length (ReplaceAll s old new) \<le> length s"
proof (induction s old new rule: ReplaceAll.induct)
  case (1 old new)
  then show ?case by simp
next
  case (2 c cs old new)
  show ?case
  proof (cases "HasPrefix (c # cs) old")
    case True
    from True have le: "length old \<le> length (c # cs)" by (rule HasPrefix_length)
    have ih: "length (ReplaceAll (drop (length old) (c # cs)) old new) \<le> length (drop (length old) (c # cs))"
      using "2.IH"(2) [OF "2.prems"(1) True "2.prems"(1) "2.prems"(2)] .
    have "ReplaceAll (c # cs) old new = new @ ReplaceAll (drop (length old) (c # cs)) old new"
      using True "2.prems"(1) by simp
    then show ?thesis using ih le "2.prems"(2) by (simp del: ReplaceAll.simps)
  next
    case False
    have ih: "length (ReplaceAll cs old new) \<le> length cs"
      using "2.IH"(3) [OF "2.prems"(1) False "2.prems"(1) "2.prems"(2)] .
    have "ReplaceAll (c # cs) old new = c # ReplaceAll cs old new"
      using False "2.prems"(1) by simp
    then show ?thesis using ih by (simp del: ReplaceAll.simps)
  qed
qed

lemma ReplaceAll_length_less:
  "old \<noteq> [] \<Longrightarrow> length new < length old \<Longrightarrow> Contains s old
     \<Longrightarrow> length (ReplaceAll s old new) < length s"
proof (induction s old new rule: ReplaceAll.induct)
  case (1 old new)
  then show ?case by simp
next
  case (2 c cs old new)
  show ?case
  proof (cases "HasPrefix (c # cs) old")
    case True
    from True have le: "length old \<le> length (c # cs)" by (rule HasPrefix_length)
    have "length (ReplaceAll (drop (length old) (c # cs)) old new)
            \<le> length (drop (length old) (c # cs))"
      using "2.prems"(1,2) by (intro ReplaceAll_length_le) simp_all
    moreover have "ReplaceAll (c # cs) old new = new @ ReplaceAll (drop (length old) (c # cs)) old new"
      using True "2.prems"(1) by simp
    ultimately show ?thesis using le "2.prems"(2) by (simp del: ReplaceAll.simps)
  next
    case False
    then have "Contains cs old" using "2.prems"(3) by simp
    then have ih: "length (ReplaceAll cs old new) < length cs"
      using "2.IH"(3) [OF "2.prems"(1) False "2.prems"(1) "2.prems"(2)] by simp
    have "ReplaceAll (c # cs) old new = c # ReplaceAll cs old new"
      using False "2.prems"(1) by simp
    then show ?thesis using ih by (simp del: ReplaceAll.simps)
  qed
qed

function collapse_spaces :: "string \<Rightarrow> string" where
  "collapse_spaces s =
     (if Contains s ''  '' then collapse_spaces (ReplaceAll s ''  '' '' '') else s)"
  by pat_completeness auto
termination
proof (relation "measure length")
  show "wf (measure length)" by simp
next
  fix s :: string
  assume "Contains s ''  ''"
  then have "length (ReplaceAll s ''  '' '' '') < length s"
    by (intro ReplaceAll_length_less) simp_all
  then show "(ReplaceAll s ''  '' '' '', s) \<in> measure length" by simp
qed

declare collapse_spaces.simps [simp del]

definition canonicalMonitorState :: "(rune \<Rightarrow> rune) \<Rightarrow> string \<Rightarrow> string" where
  "canonicalMonitorState lowerTable s0 =
     (let s = TrimSpace s0;
          s = ReplaceAll s ''-'' '' '';
          s = ReplaceAll s ''_'' '' '';
          s = collapse_spaces s
      in ToLower lowerTable s)"

fun filter_state_loop ::
  "(rune \<Rightarrow> rune) \<Rightarrow> string \<Rightarrow> Monitor list \<Rightarrow> Monitor list \<Rightarrow> Monitor list" where
  "filter_state_loop lowerTable want [] filtered = filtered"
| "filter_state_loop lowerTable want (m # rest) filtered =
     filter_state_loop lowerTable want rest
       (if canonicalMonitorState lowerTable (OverallState m) = want then filtered @ [m]
        else filtered)"

definition filterMonitorsByState ::
  "(rune \<Rightarrow> rune) \<Rightarrow> Monitor list \<Rightarrow> string \<Rightarrow> Monitor list" where
  "filterMonitorsByState lowerTable monitors desiredState =
     (let want = canonicalMonitorState lowerTable desiredState
      in if want = [] then monitors else filter_state_loop lowerTable want monitors [])"

fun filter_sen_loop :: "string \<Rightarrow> string \<Rightarrow> string \<Rightarrow> Monitor list \<Rightarrow> Monitor list \<Rightarrow> Monitor list" where
  "filter_sen_loop service env namespace [] filtered = filtered"
| "filter_sen_loop service env namespace (monitor # rest) filtered =
     (let matches = True;
          matches = (if service \<noteq> [] \<and> \<not> hasExactTag (Tags monitor) (''service:'' @ service)
                     then False else matches);
          matches = (if env \<noteq> [] \<and> \<not> hasExactTag (Tags monitor) (''env:'' @ env)
                     then False else matches);
          matches = (if namespace \<noteq> [] \<and> \<not> hasExactTag (Tags monitor) (''namespace:'' @ namespace)
                     then False else matches)
      in filter_sen_loop service env namespace rest
           (if matches then filtered @ [monitor] else filtered))"

definition filterMonitorsByServiceEnvNamespace ::
  "Monitor list \<Rightarrow> string \<Rightarrow> string \<Rightarrow> string \<Rightarrow> Monitor list" where
  "filterMonitorsByServiceEnvNamespace monitors service env namespace =
     (if service = [] \<and> env = [] \<and> namespace = [] then monitors
      else filter_sen_loop service env namespace monitors [])"

section \<open>Template customization\<close>

text \<open>
  A Go \<open>map[string]interface{}\<close> is a map from keys to JSON values. The template's
  configuration comes out of the JSON decoder, so a list in it is a \<open>JArr\<close>; the \<open>[]string\<close>
  that \<open>CustomizeTemplate\<close> stores under \<open>tags\<close> is written as the array it marshals to.
\<close>

type_synonym config = "string \<rightharpoonup> json"

fun string_entries :: "json list \<Rightarrow> string list \<Rightarrow> string list" where
  "string_entries [] tags = tags"
| "string_entries (JStr tagStr # rest) tags = string_entries rest (tags @ [tagStr])"
| "string_entries (_ # rest) tags = string_entries rest tags"

fun append_missing :: "string list \<Rightarrow> string list \<Rightarrow> string list" where
  "append_missing [] tags = tags"
| "append_missing (tag # rest) tags =
     append_missing rest (if \<not> hasExactTag tags tag then tags @ [tag] else tags)"

definition template_tags :: "config \<Rightarrow> string list" where
  "template_tags customized =
     (case customized ''tags'' of
        Some (JArr existingTags) \<Rightarrow> string_entries existingTags []
      | _ \<Rightarrow> [])"

definition customized_tags :: "config \<Rightarrow> string \<Rightarrow> string \<Rightarrow> string \<Rightarrow> string list \<Rightarrow> string list" where
  "customized_tags customized service env namespace additionalTags =
     (let tags = template_tags customized;
          serviceTags = [''service:'' @ service, ''env:'' @ env, ''namespace:'' @ namespace];
          tags = append_missing serviceTags tags;
          tags = append_missing additionalTags tags
      in tags)"

text \<open>The five replacements \<open>CustomizeTemplate\<close> applies to a query, in its order.\<close>

definition customized_query :: "string \<Rightarrow> string \<Rightarrow> string \<Rightarrow> string \<Rightarrow> string" where
  "customized_query query0 service env namespace =
     (let query = ReplaceAll query0 ''by {service}'' ''by __SERVICE_PRESERVE__'';
          query = ReplaceAll query ''{service}'' service;
          query = ReplaceAll query ''__SERVICE_PRESERVE__'' ''{service}'';
          query = ReplaceAll query ''{env}'' env;
          query = ReplaceAll query ''{namespace}'' namespace
      in query)"

definition CustomizeTemplate ::
  "(rune \<Rightarrow> rune) \<Rightarrow> config \<Rightarrow> string \<Rightarrow> string \<Rightarrow> string \<Rightarrow> string list \<Rightarrow> config" where
  "CustomizeTemplate upperTable template service env namespace additionalTags =
     (let customized = template;
          customized =
            (case customized ''name'' of
               Some (JStr name) \<Rightarrow>
                 customized(''name'' \<mapsto> JStr
                   (ReplaceAll
                      (ReplaceAll
                         (ReplaceAll name ''{service}'' service)
                         ''{env}'' (ToUpper upperTable env))
                      ''{namespace}'' namespace))
             | _ \<Rightarrow> customized);
          customized =
            (case customized ''query'' of
               Some (JStr query) \<Rightarrow>
                 customized(''query'' \<mapsto> JStr (customized_query query service env namespace))
             | _ \<Rightarrow> customized);
          customized =
            (case customized ''message'' of
               Some (JStr message) \<Rightarrow>
                 customized(''message'' \<mapsto> JStr
                   (ReplaceAll
                      (ReplaceAll
                         (ReplaceAll message ''{service}'' service)
                         ''{env}'' env)
                      ''{namespace}'' namespace))
             | _ \<Rightarrow> customized);
          tags = customized_tags customized service env namespace additionalTags
      in customized(''tags'' \<mapsto> JArr (map JStr tags)))"

section \<open>The substitution, the canonical form and the deduplication as the specification words them\<close>

text \<open>
  The query substitution in the order the specification gives: protect, replace the
  three placeholders, restore. The protected form and its restoration are the code's.
\<close>

definition query_substitution_as_specified :: "string \<Rightarrow> string \<Rightarrow> string \<Rightarrow> string \<Rightarrow> string" where
  "query_substitution_as_specified query0 service env namespace =
     (let query = ReplaceAll query0 ''by {service}'' ''by __SERVICE_PRESERVE__'';
          query = ReplaceAll query ''{service}'' service;
          query = ReplaceAll query ''{env}'' env;
          query = ReplaceAll query ''{namespace}'' namespace;
          query = ReplaceAll query ''__SERVICE_PRESERVE__'' ''{service}''
      in query)"

text \<open>
  The canonical form of a state before it is lowercased, in the words of the specification:
  \<open>-\<close> and \<open>_\<close> are read as spaces, and every run of spaces is one space.
\<close>

definition separators_to_spaces :: "string \<Rightarrow> string" where
  "separators_to_spaces s = map (\<lambda>c. if c = CHR ''-'' \<or> c = CHR ''_'' then CHR '' '' else c) s"

fun squeeze :: "string \<Rightarrow> string" where
  "squeeze (a # b # s) =
     (if a = CHR '' '' \<and> b = CHR '' '' then squeeze (b # s) else a # squeeze (b # s))"
| "squeeze s = s"

text \<open>A list without its repetitions: of equal entries the first one is kept.\<close>

primrec dedup_first :: "string list \<Rightarrow> string list" where
  "dedup_first [] = []"
| "dedup_first (x # xs) = x # filter (\<lambda>y. y \<noteq> x) (dedup_first xs)"

section \<open>Loading templates\<close>

text \<open>
  \<open>TemplateData\<close>: the fields \<open>Name\<close> and \<open>Config\<close>; a nil map is \<open>None\<close>.
\<close>

record TemplateData =
  TName :: string
  TConfig :: "config option"

text \<open>
  What \<open>os.ReadFile\<close> and the syntax check of \<open>json.Unmarshal\<close> make of the file: it cannot
  be read, it is not JSON text (malformed, or nested too deep; with the syntax error), or it
  is a JSON document.
\<close>

datatype file_content = Unreadable | NotJSON string | Document json

text \<open>
  A number that is decoded into an \<open>interface{}\<close> goes through \<open>strconv.ParseFloat(s, 64)\<close>,
  which fails when the value is out of range: when it rounds to infinity, that is, when its
  magnitude is at least \<open>2^1024 - 2^970\<close>. \<open>ParseFloat\<close> decides that on the decimal it reads
  from the literal: leading zeros are dropped, 800 digits are kept, and an exponent stops
  growing once it has reached 10000. A \<open>JNum\<close> carries a number literal of the JSON grammar.
\<close>

record decimal =
  mant :: nat
  nd :: nat
  dp :: int
  sawdot :: bool

fun decimal_digits :: "string \<Rightarrow> decimal \<Rightarrow> decimal \<times> string" where
  "decimal_digits [] b = (b, [])"
| "decimal_digits (c # cs) b =
     (if c = CHR ''.'' then decimal_digits cs (b\<lparr>sawdot := True, dp := int (nd b)\<rparr>)
      else if isDigit c then
        decimal_digits cs
          (if c = CHR ''0'' \<and> nd b = 0 then b\<lparr>dp := dp b - 1\<rparr>
           else if nd b < 800 then b\<lparr>mant := mant b * 10 + digitVal c, nd := nd b + 1\<rparr>
           else b)
      else (b, c # cs))"

definition decimal_exponent :: "string \<Rightarrow> int" where
  "decimal_exponent s =
     (case s of
        [] \<Rightarrow> 0
      | c # cs \<Rightarrow>
          if c = CHR ''e'' \<or> c = CHR ''E'' then
            (let esign = (case cs of [] \<Rightarrow> 1 | x # xs \<Rightarrow> if x = CHR ''-'' then - 1 else 1);
                 ds = (case cs of
                         [] \<Rightarrow> []
                       | x # xs \<Rightarrow> if x = CHR ''+'' \<or> x = CHR ''-'' then xs else cs);
                 e = foldl (\<lambda>e d. if e < 10000 then e * 10 + digitVal d else e) 0
                       (takeWhile isDigit ds)
             in esign * int e)
          else 0)"

definition float64_limit :: nat where
  "float64_limit = 2 ^ 1024 - 2 ^ 970"

definition float64_overflow :: "string \<Rightarrow> bool" where
  "float64_overflow s =
     (let s1 = (case s of [] \<Rightarrow> [] | c # cs \<Rightarrow> if c = CHR ''+'' \<or> c = CHR ''-'' then cs else s);
          parsed = decimal_digits s1 \<lparr>mant = 0, nd = 0, dp = 0, sawdot = False\<rparr>;
          b = fst parsed;
          point = (if sawdot b then dp b else int (nd b)) + decimal_exponent (snd parsed)
      in if nd b = 0 then False
         else if point > 310 then True
         else if point < - 330 then False
         else if int (nd b) \<le> point
         then float64_limit \<le> mant b * 10 ^ nat (point - int (nd b))
         else float64_limit * 10 ^ nat (int (nd b) - point) \<le> mant b)"

text \<open>
  The number literals of a JSON value, in document order. Decoding a value into an
  \<open>interface{}\<close> converts every one of them; the first that is out of range is the error
  \<open>Unmarshal\<close> returns.
\<close>

fun numbers :: "json \<Rightarrow> string list" where
  "numbers (JNum literal) = [literal]"
| "numbers (JArr elements) = concat (map numbers elements)"
| "numbers (JObj members) = concat (map (\<lambda>member. numbers (snd member)) members)"
| "numbers v = []"

definition number_error :: "json \<Rightarrow> string option" where
  "number_error v =
     (case filter float64_overflow (numbers v) of
        [] \<Rightarrow> None
      | literal # rest \<Rightarrow>
          Some (''json: cannot unmarshal number '' @ literal @ '' into Go value of type float64''))"

text \<open>
  \<open>json.Unmarshal\<close> into the program's types. \<open>null\<close> sets a map or a slice to nil and leaves
  a string or a struct as it is. A value of the wrong kind and a number out of range are
  errors: \<open>Unmarshal\<close> notes the first one, goes on, and returns it at the end; the caller
  then drops what was decoded, so the model stops at the first error (\<open>None\<close>).

  A key selects a struct field when it is the field's JSON name up to simple case folding:
  an ASCII letter matches in either case, U+017F also matches \<open>s\<close>, and U+212A also matches
  \<open>k\<close>. The value of a key that selects no field is skipped without being converted.
  \<open>TemplateFile.Config\<close> carries the tag \<open>-\<close> and is never filled.
\<close>

definition object_map :: "(string \<times> json) list \<Rightarrow> config" where
  "object_map members = map_of (rev members)"

fun equalFold :: "string \<Rightarrow> string \<Rightarrow> bool" where
  "equalFold [] t = (t = [])"
| "equalFold (sb # s) [] = False"
| "equalFold (sb # s) (tb # t) =
     (if byte tb < 0x80 then toLowerChar sb = toLowerChar tb \<and> equalFold s t
      else (case DecodeRune (tb # t) of (tr, width) \<Rightarrow>
              (if sb = CHR ''s'' \<or> sb = CHR ''S'' then tr = 0x17F
               else if sb = CHR ''k'' \<or> sb = CHR ''K'' then tr = 0x212A
               else False)
              \<and> equalFold s (drop width (tb # t))))"

definition fieldMatches :: "string \<Rightarrow> string \<Rightarrow> bool" where
  "fieldMatches key name = (key = name \<or> equalFold name key)"

fun decode_members :: "('a \<Rightarrow> string \<times> json \<Rightarrow> 'a option) \<Rightarrow> (string \<times> json) list \<Rightarrow> 'a \<Rightarrow> 'a option" where
  "decode_members field [] target = Some target"
| "decode_members field (member # rest) target =
     (case field target member of
        None \<Rightarrow> None
      | Some target' \<Rightarrow> decode_members field rest target')"

text \<open>
  Decoding an object into a \<open>TemplateData\<close> that may already hold values: \<open>name\<close> is
  overwritten, the members of \<open>config\<close> are put into the map that is there (a nil map is
  made first).
\<close>

definition TemplateData_field :: "TemplateData \<Rightarrow> string \<times> json \<Rightarrow> TemplateData option" where
  "TemplateData_field td member =
     (case member of (key, v) \<Rightarrow>
        if fieldMatches key ''name'' then
          (case v of
             JStr s \<Rightarrow> Some (td\<lparr>TName := s\<rparr>)
           | JNull \<Rightarrow> Some td
           | _ \<Rightarrow> None)
        else if fieldMatches key ''config'' then
          (case v of
             JObj members \<Rightarrow>
               (case number_error v of
                  Some err \<Rightarrow> None
                | None \<Rightarrow>
                    Some (td\<lparr>TConfig :=
                      Some ((case TConfig td of None \<Rightarrow> Map.empty | Some m \<Rightarrow> m)
                            ++ object_map members)\<rparr>))
           | JNull \<Rightarrow> Some (td\<lparr>TConfig := None\<rparr>)
           | _ \<Rightarrow> None)
        else Some td)"

definition unmarshal_TemplateData :: "json \<Rightarrow> TemplateData \<Rightarrow> TemplateData option" where
  "unmarshal_TemplateData v td =
     (case v of
        JNull \<Rightarrow> Some td
      | JObj members \<Rightarrow> decode_members TemplateData_field members td
      | _ \<Rightarrow> None)"

text \<open>
  Decoding an array into a slice. The decoder does not start from an empty slice: element
  \<open>i\<close> of the array is decoded into what the slice's array holds at \<open>i\<close>, and only beyond
  the array into a zero value. A slice is modelled by its elements together with the
  elements its array holds beyond its length, which come back when the slice is extended.
  An empty JSON array and \<open>null\<close> give a slice with a new, empty array.
\<close>

fun unmarshal_elements :: "json list \<Rightarrow> TemplateData list \<Rightarrow> TemplateData list option" where
  "unmarshal_elements [] held = Some []"
| "unmarshal_elements (v # rest) held =
     (case unmarshal_TemplateData v
             (case held of [] \<Rightarrow> \<lparr>TName = [], TConfig = None\<rparr> | td # tds \<Rightarrow> td) of
        None \<Rightarrow> None
      | Some td' \<Rightarrow>
          (case unmarshal_elements rest (tl held) of
             None \<Rightarrow> None
           | Some decoded \<Rightarrow> Some (td' # decoded)))"

type_synonym templates_slice = "TemplateData list \<times> TemplateData list"

definition TemplateFile_field :: "templates_slice \<Rightarrow> string \<times> json \<Rightarrow> templates_slice option" where
  "TemplateFile_field templates member =
     (case member of (key, v) \<Rightarrow>
        if fieldMatches key ''templates'' then
          (case v of
             JArr elements \<Rightarrow>
               if elements = [] then Some ([], [])
               else
                 (case unmarshal_elements elements (fst templates @ snd templates) of
                    None \<Rightarrow> None
                  | Some decoded \<Rightarrow>
                      Some (decoded, drop (length elements) (fst templates @ snd templates)))
           | JNull \<Rightarrow> Some ([], [])
           | _ \<Rightarrow> None)
        else Some templates)"

definition unmarshal_TemplateFile :: "json \<Rightarrow> TemplateData list option" where
  "unmarshal_TemplateFile doc =
     (case doc of
        JNull \<Rightarrow> Some []
      | JObj members \<Rightarrow> map_option fst (decode_members TemplateFile_field members ([], []))
      | _ \<Rightarrow> None)"

definition kind_name :: "json \<Rightarrow> string" where
  "kind_name v =
     (case v of
        JNull \<Rightarrow> ''null'' | JBool b \<Rightarrow> ''bool'' | JNum n \<Rightarrow> ''number'' | JStr s \<Rightarrow> ''string''
      | JArr xs \<Rightarrow> ''array'' | JObj members \<Rightarrow> ''object'')"

definition unmarshal_map :: "json \<Rightarrow> config option result" where
  "unmarshal_map doc =
     (case doc of
        JObj members \<Rightarrow>
          (case number_error doc of
             Some err \<Rightarrow> Inl err
           | None \<Rightarrow> Inr (Some (object_map members)))
      | JNull \<Rightarrow> Inr None
      | _ \<Rightarrow> Inl (''json: cannot unmarshal '' @ kind_name doc
                     @ '' into Go value of type map[string]interface {}''))"

definition single_template :: "string \<Rightarrow> json \<Rightarrow> TemplateData list result" where
  "single_template templateFile doc =
     (case unmarshal_map doc of
        Inl err \<Rightarrow> Inl (''invalid JSON in template file '' @ templateFile @ '': '' @ err)
      | Inr singleTemplate \<Rightarrow> Inr [\<lparr>TName = ''Single Template'', TConfig = singleTemplate\<rparr>])"

definition LoadTemplateFromJSON :: "string \<Rightarrow> file_content \<Rightarrow> TemplateData list result" where
  "LoadTemplateFromJSON templateFile content =
     (case content of
        Unreadable \<Rightarrow> Inl (''template file not found: '' @ templateFile)
      | NotJSON err \<Rightarrow> Inl (''invalid JSON in template file '' @ templateFile @ '': '' @ err)
      | Document doc \<Rightarrow>
          (case unmarshal_TemplateFile doc of
             None \<Rightarrow> single_template templateFile doc
           | Some templates \<Rightarrow>
               if length templates > 0 then Inr templates
               else single_template templateFile doc))"

section \<open>The add-tags and remove-tags commands\<close>

text \<open>
  \<open>NewClient\<close> reads the two keys from the environment and fails without them; it sends
  nothing.
\<close>

definition NewClient :: "(string \<Rightarrow> string) \<Rightarrow> string option" where
  "NewClient getenv =
     (let apiKey = getenv ''DD_API_KEY'';
          apiKey = (if apiKey = [] then getenv ''DATADOG_API_KEY'' else apiKey);
          appKey = getenv ''DD_APP_KEY'';
          appKey = (if appKey = [] then getenv ''DATADOG_APP_KEY'' else appKey)
      in if apiKey = [] \<or> appKey = []
         then Some (''DD_API_KEY and DD_APP_KEY environment variables required''
                    @ [CHR 0x0A, CHR 0x0A] @ ''Set them with:'' @ [CHR 0x0A]
                    @ ''  export DD_API_KEY='' @ [CHR 0x27] @ ''your-api-key'' @ [CHR 0x27, CHR 0x0A]
                    @ ''  export DD_APP_KEY='' @ [CHR 0x27] @ ''your-app-key'' @ [CHR 0x27])
         else None)"

text \<open>
  The flags of \<open>add-tags\<close> (\<open>addTagsMonitorID\<close>, \<open>addTagsService\<close>, ...) and of \<open>remove-tags\<close>
  (\<open>removeTagsMonitorID\<close>, ...). The commands return an error or nil; what they print is
  left out, the requests they send are in the history.
\<close>

record flags =
  flagMonitorID :: int
  flagService :: string
  flagEnv :: string
  flagNamespace :: string
  flagFilterTags :: string
  flagQuery :: string
  flagStatus :: string
  flagTag :: "string list"

definition splitFilterTags :: "string \<Rightarrow> string list" where
  "splitFilterTags filterTagsFlag =
     (if filterTagsFlag \<noteq> [] then map TrimSpace (Split filterTagsFlag '','') else [])"

definition runAddTags ::
  "(rune \<Rightarrow> rune) \<Rightarrow> (string \<Rightarrow> string) \<Rightarrow> api \<Rightarrow> flags \<Rightarrow> history \<Rightarrow> string option \<times> history" where
  "runAddTags lowerTable getenv c f h =
     (if length (flagTag f) = 0 then (Some ''at least one --tag is required'', h)
      else if flagMonitorID f = 0 \<and> flagService f = [] \<and> flagEnv f = [] \<and> flagNamespace f = []
              \<and> flagFilterTags f = [] \<and> flagQuery f = []
      then (Some ''either --monitor-id or filter flags (--service, --env, --namespace, --filter-tags, --query) must be provided'', h)
      else if flagMonitorID f > 0
              \<and> (flagService f \<noteq> [] \<or> flagEnv f \<noteq> [] \<or> flagNamespace f \<noteq> []
                   \<or> flagFilterTags f \<noteq> [] \<or> flagQuery f \<noteq> [] \<or> flagStatus f \<noteq> [])
      then (Some ''cannot use --monitor-id together with filter flags'', h)
      else if flagQuery f \<noteq> []
              \<and> (flagService f \<noteq> [] \<or> flagEnv f \<noteq> [] \<or> flagNamespace f \<noteq> []
                   \<or> flagFilterTags f \<noteq> [])
      then (Some ''cannot use --query together with other filter flags (--service, --env, --namespace, --filter-tags)'', h)
      else
        (case NewClient getenv of
           Some err \<Rightarrow> (Some err, h)
         | None \<Rightarrow>
             if flagMonitorID f > 0 then
               (case AddTagsToMonitor c (flagMonitorID f) (flagTag f) h of
                  (Inl err, h1) \<Rightarrow> (Some err, h1)
                | (Inr updated, h1) \<Rightarrow> (None, h1))
             else if flagQuery f \<noteq> [] then
               (case ListMonitors c [] (flagQuery f) h of
                  (Inl err, h1) \<Rightarrow> (Some err, h1)
                | (Inr monitors0, h1) \<Rightarrow>
                    (let monitors = (if flagStatus f \<noteq> []
                                     then filterMonitorsByState lowerTable monitors0 (flagStatus f)
                                     else monitors0)
                     in if length monitors = 0 then (None, h1)
                        else (case add_tags_each c (flagTag f) monitors [] h1 of
                                (results, h2) \<Rightarrow> (None, h2))))
             else
               (let filterTags = splitFilterTags (flagFilterTags f)
                in if flagStatus f = [] then
                     (case AddTagsToMonitors c (flagService f) (flagEnv f) (flagNamespace f)
                             filterTags (flagTag f) h of
                        (Inl err, h1) \<Rightarrow> (Some err, h1)
                      | (Inr results, h1) \<Rightarrow> (None, h1))
                   else
                     (case ListMonitors c filterTags [] h of
                        (Inl err, h1) \<Rightarrow> (Some err, h1)
                      | (Inr monitors0, h1) \<Rightarrow>
                          (let monitors = filterMonitorsByServiceEnvNamespace monitors0
                                            (flagService f) (flagEnv f) (flagNamespace f);
                               monitors = filterMonitorsByState lowerTable monitors (flagStatus f)
                           in if length monitors = 0 then (None, h1)
                              else (case add_tags_each c (flagTag f) monitors [] h1 of
                                      (results, h2) \<Rightarrow> (None, h2)))))))"

definition runRemoveTags ::
  "(rune \<Rightarrow> rune) \<Rightarrow> (string \<Rightarrow> string) \<Rightarrow> api \<Rightarrow> flags \<Rightarrow> history \<Rightarrow> string option \<times> history" where
  "runRemoveTags lowerTable getenv c f h =
     (if length (flagTag f) = 0 then (Some ''at least one --tag is required'', h)
      else if flagMonitorID f = 0 \<and> flagService f = [] \<and> flagEnv f = [] \<and> flagNamespace f = []
              \<and> flagFilterTags f = [] \<and> flagQuery f = []
      then (Some ''either --monitor-id or filter flags (--service, --env, --namespace, --filter-tags, --query) must be provided'', h)
      else if flagMonitorID f > 0
              \<and> (flagService f \<noteq> [] \<or> flagEnv f \<noteq> [] \<or> flagNamespace f \<noteq> []
                   \<or> flagFilterTags f \<noteq> [] \<or> flagQuery f \<noteq> [] \<or> flagStatus f \<noteq> [])
      then (Some ''cannot use --monitor-id together with filter flags'', h)
      else if flagQuery f \<noteq> []
              \<and> (flagService f \<noteq> [] \<or> flagEnv f \<noteq> [] \<or> flagNamespace f \<noteq> []
                   \<or> flagFilterTags f \<noteq> [])
      then (Some ''cannot use --query together with other filter flags (--service, --env, --namespace, --filter-tags)'', h)
      else
        (case NewClient getenv of
           Some err \<Rightarrow> (Some err, h)
         | None \<Rightarrow>
             if flagMonitorID f > 0 then
               (case RemoveTagsFromMonitor c (flagMonitorID f) (flagTag f) h of
                  (Inl err, h1) \<Rightarrow> (Some err, h1)
                | (Inr updated, h1) \<Rightarrow> (None, h1))
             else if flagQuery f \<noteq> [] then
               (case ListMonitors c [] (flagQuery f) h of
                  (Inl err, h1) \<Rightarrow> (Some err, h1)
                | (Inr monitors0, h1) \<Rightarrow>
                    (let monitors = (if flagStatus f \<noteq> []
                                     then filterMonitorsByState lowerTable monitors0 (flagStatus f)
                                     else monitors0)
                     in if length monitors = 0 then (None, h1)
                        else (case remove_tags_each c (flagTag f) monitors [] h1 of
                                (results, h2) \<Rightarrow> (None, h2))))
             else
               (let filterTags = splitFilterTags (flagFilterTags f)
                in if flagStatus f = [] then
                     (case RemoveTagsFromMonitors c (flagService f) (flagEnv f) (flagNamespace f)
                             filterTags (flagTag f) h of
                        (Inl err, h1) \<Rightarrow> (Some err, h1)
                      | (Inr results, h1) \<Rightarrow> (None, h1))
                   else
                     (case ListMonitors c filterTags [] h of
                        (Inl err, h1) \<Rightarrow> (Some err, h1)
                      | (Inr monitors0, h1) \<Rightarrow>
                          (let monitors = filterMonitorsByServiceEnvNamespace monitors0
                                            (flagService f) (flagEnv f) (flagNamespace f);
                               monitors = filterMonitorsByState lowerTable monitors (flagStatus f)
                           in if length monitors = 0 then (None, h1)
                              else (case remove_tags_each c (flagTag f) monitors [] h1 of
                                      (results, h2) \<Rightarrow> (None, h2)))))))"

text \<open>The errors the commands return before they build a client.\<close>

definition validation_errors :: "string list" where
  "validation_errors =
     [''at least one --tag is required'',
      ''cannot use --monitor-id together with filter flags'',
      ''cannot use --query together with other filter flags (--service, --env, --namespace, --filter-tags)'']"

section \<open>An in-memory repository\<close>

text \<open>
  A repository that keeps the monitors in a list, used to run the client on concrete
  inputs. Its content after a history is the initial content with every write replayed;
  reads, updates and deletes of an identifier it does not hold are answered with an error.
\<close>

definition mk_monitor :: "int \<Rightarrow> string \<Rightarrow> string list \<Rightarrow> string \<Rightarrow> Monitor" where
  "mk_monitor i n ts st =
     \<lparr>ID = i, Name = n, Type = ''query alert'', Query = [], Message = [], Tags = ts,
      Options = [], OverallState = st, CreatedAt = 0, Modified = 0\<rparr>"

fun apply_request :: "Monitor list \<Rightarrow> request \<Rightarrow> Monitor list" where
  "apply_request store (PutMonitor i m) = map (\<lambda>x. if ID x = i then m\<lparr>ID := i\<rparr> else x) store"
| "apply_request store (DeleteMonitorById i) = filter (\<lambda>x. ID x \<noteq> i) store"
| "apply_request store (PostMonitor m) = store @ [m\<lparr>ID := fold max (map ID store) 0 + 1\<rparr>]"
| "apply_request store (GetMonitors mt q) = store"
| "apply_request store (GetMonitorById i) = store"

definition store_after :: "Monitor list \<Rightarrow> history \<Rightarrow> Monitor list" where
  "store_after init h = foldl apply_request init h"

definition mem_api :: "Monitor list \<Rightarrow> int list \<Rightarrow> api" where
  "mem_api init locked =
     \<lparr>list_reply = (\<lambda>h mt q. Inr (store_after init h)),
      get_reply = (\<lambda>h i. case find (\<lambda>x. ID x = i) (store_after init h) of
                            None \<Rightarrow> Inl ''failed to get monitor: status 404, body: not found''
                          | Some m \<Rightarrow> Inr m),
      create_reply = (\<lambda>h m. Inr (m\<lparr>ID := fold max (map ID (store_after init h)) 0 + 1\<rparr>)),
      update_reply = (\<lambda>h i m.
                        if i \<in> set locked
                        then Inl ''failed to update monitor: status 403, body: forbidden''
                        else if i \<in> set (map ID (store_after init h)) then Inr (m\<lparr>ID := i\<rparr>)
                        else Inl ''failed to update monitor: status 404, body: not found''),
      delete_reply = (\<lambda>h i.
                        if i \<in> set locked
                        then Some ''failed to delete monitor: status 403, body: forbidden''
                        else if i \<in> set (map ID (store_after init h)) then None
                        else Some ''failed to delete monitor: status 404, body: not found'')\<rparr>"

definition demo_monitors :: "Monitor list" where
  "demo_monitors =
     [mk_monitor 1 ''cpu'' [''service:web'', ''env:hml''] ''OK'',
      mk_monitor 2 ''mem'' [''service:web'', ''env:hml''] ''No Data'',
      mk_monitor 3 ''disk'' [''service:db'', ''env:hml''] ''Alert'']"

definition demo_api :: api where
  "demo_api = mem_api demo_monitors [2]"

text \<open>
  A repository whose update call answers with a monitor of its own, whatever it was asked
  to update.
\<close>

definition stray_api :: api where
  "stray_api = demo_api\<lparr>update_reply := (\<lambda>h i m. Inr (mk_monitor 999 ''elsewhere'' [] ''OK''))\<rparr>"

section \<open>Decimal notation\<close>

text \<open>The decimal text of an integer, as a JSON document or a string would carry it.\<close>

fun decimal_nat :: "nat \<Rightarrow> string" where
  "decimal_nat n =
     (if n < 10 then [char_of (48 + n)]
      else decimal_nat (n div 10) @ [char_of (48 + n mod 10)])"

definition decimal :: "int \<Rightarrow> string" where
  "decimal n = (if n < 0 then CHR ''-'' # decimal_nat (nat (- n)) else decimal_nat (nat n))"

declare decimal_nat.simps [simp del]

section \<open>What a batch is expected to report\<close>

text \<open>
  The outcomes of running an operation once per monitor, in list order, each run starting
  from the history the previous one left, whatever the previous one returned.
\<close>

fun outcomes :: "(int \<Rightarrow> history \<Rightarrow> 'a \<times> history) \<Rightarrow> Monitor list \<Rightarrow> history \<Rightarrow> 'a list" where
  "outcomes operation [] h = []"
| "outcomes operation (monitor # rest) h =
     (case operation (ID monitor) h of (r, h1) \<Rightarrow> r # outcomes operation rest h1)"

definition failed_entry :: "Monitor \<Rightarrow> string \<Rightarrow> entry" where
  "failed_entry monitor err =
     \<lparr>entry_id = ID monitor, entry_name = Name monitor,
      entry_status = ''failed: '' @ err, entry_tags = None\<rparr>"

definition delete_entry :: "Monitor \<Rightarrow> string option \<Rightarrow> entry" where
  "delete_entry monitor outcome =
     (case outcome of
        Some err \<Rightarrow> failed_entry monitor err
      | None \<Rightarrow> \<lparr>entry_id = ID monitor, entry_name = Name monitor,
                  entry_status = ''deleted'', entry_tags = None\<rparr>)"

definition tags_entry :: "Monitor \<Rightarrow> Monitor result \<Rightarrow> entry" where
  "tags_entry monitor outcome =
     (case outcome of
        Inl err \<Rightarrow> failed_entry monitor err
      | Inr updated \<Rightarrow> \<lparr>entry_id = ID updated, entry_name = Name updated,
                         entry_status = ''updated'', entry_tags = Some (Tags updated)\<rparr>)"

text \<open>
  The identifier and the name that the entry of a tag operation carries: those of the
  monitor the operation was run for when it failed, those of the monitor that the update
  returned when it succeeded.
\<close>

definition reported_id :: "Monitor \<Rightarrow> Monitor result \<Rightarrow> int" where
  "reported_id monitor outcome = (case outcome of Inl err \<Rightarrow> ID monitor | Inr updated \<Rightarrow> ID updated)"

definition reported_name :: "Monitor \<Rightarrow> Monitor result \<Rightarrow> string" where
  "reported_name monitor outcome =
     (case outcome of Inl err \<Rightarrow> Name monitor | Inr updated \<Rightarrow> Name updated)"

definition is_failed :: "entry \<Rightarrow> bool" where
  "is_failed e = HasPrefix (entry_status e) ''failed: ''"

section \<open>Evaluation on the in-memory repository\<close>

lemmas demo_defs = demo_api_def demo_monitors_def mem_api_def store_after_def mk_monitor_def
  ListMonitors_def GetMonitor_def UpdateMonitor_def DeleteMonitor_def CreateMonitor_def
  AddTagsToMonitor_def RemoveTagsFromMonitor_def addTags_def removeTags_def matchesFilters_def

text \<open>The definitions that evaluate the string functions and the decoders on a given input.\<close>

lemmas utf8_defs = DecodeRune_def DecodeLastRune_def EncodeRune_def RuneError_def byte_def
  IsSpace_def RuneStart_def Let_def char_of_def bit_0

lemmas canonical_defs = canonicalMonitorState_def TrimSpace_def trimLeft.simps trimRight.simps
  ToLower_def toLowerChar_def collapse_spaces.simps HasPrefix_def

lemmas float_defs = float64_overflow_def decimal_exponent_def float64_limit_def isDigit_def
  digitVal_def

lemmas decode_defs = unmarshal_TemplateFile_def TemplateFile_field_def unmarshal_TemplateData_def
  TemplateData_field_def fieldMatches_def toLowerChar_def number_error_def

section \<open>Properties of the tag mutations\<close>

lemma add_tags_loop_eq:
  "add_tags_loop ex toAdd tags = tags @ filter (\<lambda>t. \<not> ex t) toAdd"
  by (induction toAdd arbitrary: tags) auto

lemma remove_tags_loop_eq:
  "remove_tags_loop rm tags acc = acc @ filter (\<lambda>t. \<not> rm t) tags"
  by (induction tags arbitrary: acc) auto

text \<open>
  C1. Adding a list that holds the same new tag twice: the tag is looked up among the tags
  the monitor had when it was read, both times, so it is appended both times. The monitor
  written back, and returned, has the tag twice.
\<close>

theorem AddTagsToMonitor_repeated_tag:
  "AddTagsToMonitor (mem_api [mk_monitor 1 ''cpu'' [''env:prod''] ''OK''] []) 1
     [''team:a'', ''team:a''] []
   = (Inr (mk_monitor 1 ''cpu'' [''env:prod'', ''team:a'', ''team:a''] ''OK''),
      [GetMonitorById 1,
       PutMonitor 1 (mk_monitor 1 ''cpu'' [''env:prod'', ''team:a'', ''team:a''] ''OK'')])
   \<and> \<not> distinct (Tags (addTags (mk_monitor 1 ''cpu'' [''env:prod''] ''OK'') [''team:a'', ''team:a'']))"
  by (simp add: AddTagsToMonitor_def GetMonitor_def UpdateMonitor_def addTags_def mem_api_def
        store_after_def mk_monitor_def)

text \<open>
  C9. For a tag \<open>t\<close> that the monitor does not carry, removing \<open>t\<close> from the result of
  adding \<open>t\<close> gives the monitor back: the same tag list, in the same order, and every other
  field untouched.
\<close>

theorem remove_after_add_roundtrip:
  "t \<notin> set (Tags m) \<Longrightarrow>
     Tags (removeTags (addTags m [t]) [t]) = Tags m \<and> removeTags (addTags m [t]) [t] = m"
proof -
  assume absent: "t \<notin> set (Tags m)"
  then have "\<forall>x \<in> set (Tags m). x \<noteq> t" by auto
  then have "filter (\<lambda>x. x \<noteq> t) (Tags m) = Tags m"
    by (simp add: filter_id_conv)
  then show ?thesis using absent
    by (simp add: removeTags_def addTags_def remove_tags_loop_eq)
qed

theorem remove_after_add_roundtrip_witness:
  "''team:a'' \<notin> set (Tags (mk_monitor 1 ''cpu'' [''env:prod'', ''service:web''] ''OK''))
   \<and> Tags (removeTags (addTags (mk_monitor 1 ''cpu'' [''env:prod'', ''service:web''] ''OK'')
             [''team:a'']) [''team:a'']) = [''env:prod'', ''service:web'']
   \<and> snd (RemoveTagsFromMonitor demo_api 1 [''team:a'']
            (snd (AddTagsToMonitor demo_api 1 [''team:a''] [])))
       = [GetMonitorById 1,
          PutMonitor 1 (mk_monitor 1 ''cpu'' [''service:web'', ''env:hml'', ''team:a''] ''OK''),
          GetMonitorById 1,
          PutMonitor 1 (mk_monitor 1 ''cpu'' [''service:web'', ''env:hml''] ''OK'')]"
proof -
  have absent: "''team:a'' \<notin> set (Tags (mk_monitor 1 ''cpu'' [''env:prod'', ''service:web''] ''OK''))"
    by (simp add: mk_monitor_def)
  from remove_after_add_roundtrip [OF absent]
  have restored: "Tags (removeTags (addTags (mk_monitor 1 ''cpu'' [''env:prod'', ''service:web''] ''OK'')
             [''team:a'']) [''team:a'']) = [''env:prod'', ''service:web'']"
    by (simp add: mk_monitor_def)
  have remote: "snd (RemoveTagsFromMonitor demo_api 1 [''team:a'']
            (snd (AddTagsToMonitor demo_api 1 [''team:a''] [])))
       = [GetMonitorById 1,
          PutMonitor 1 (mk_monitor 1 ''cpu'' [''service:web'', ''env:hml'', ''team:a''] ''OK''),
          GetMonitorById 1,
          PutMonitor 1 (mk_monitor 1 ''cpu'' [''service:web'', ''env:hml''] ''OK'')]"
    by (simp add: demo_defs)
  from absent restored remote show ?thesis by simp
qed

section \<open>Batch execution\<close>

lemma outcomes_length: "length (outcomes operation ms h) = length ms"
  by (induction ms arbitrary: h) (auto split: prod.splits)

lemma delete_each_eq:
  "fst (delete_each c ms acc h) = acc @ map2 delete_entry ms (outcomes (DeleteMonitor c) ms h)"
proof (induction ms arbitrary: acc h)
  case Nil
  then show ?case by simp
next
  case (Cons m ms)
  obtain r h1 where step: "DeleteMonitor c (ID m) h = (r, h1)" by (cases "DeleteMonitor c (ID m) h")
  show ?case
  proof (cases r)
    case None
    with step Cons.IH show ?thesis by (simp add: delete_entry_def)
  next
    case (Some err)
    with step Cons.IH show ?thesis by (simp add: delete_entry_def failed_entry_def)
  qed
qed

lemma add_tags_each_eq:
  "fst (add_tags_each c tagsToAdd ms acc h)
     = acc @ map2 tags_entry ms (outcomes (\<lambda>i. AddTagsToMonitor c i tagsToAdd) ms h)"
proof (induction ms arbitrary: acc h)
  case Nil
  then show ?case by simp
next
  case (Cons m ms)
  obtain r h1 where step: "AddTagsToMonitor c (ID m) tagsToAdd h = (r, h1)"
    by (cases "AddTagsToMonitor c (ID m) tagsToAdd h")
  show ?case
  proof (cases r)
    case (Inl err)
    with step Cons.IH show ?thesis by (simp add: tags_entry_def failed_entry_def)
  next
    case (Inr updated)
    with step Cons.IH show ?thesis by (simp add: tags_entry_def)
  qed
qed

lemma remove_tags_each_eq:
  "fst (remove_tags_each c tagsToRemove ms acc h)
     = acc @ map2 tags_entry ms (outcomes (\<lambda>i. RemoveTagsFromMonitor c i tagsToRemove) ms h)"
proof (induction ms arbitrary: acc h)
  case Nil
  then show ?case by simp
next
  case (Cons m ms)
  obtain r h1 where step: "RemoveTagsFromMonitor c (ID m) tagsToRemove h = (r, h1)"
    by (cases "RemoveTagsFromMonitor c (ID m) tagsToRemove h")
  show ?case
  proof (cases r)
    case (Inl err)
    with step Cons.IH show ?thesis by (simp add: tags_entry_def failed_entry_def)
  next
    case (Inr updated)
    with step Cons.IH show ?thesis by (simp add: tags_entry_def)
  qed
qed

lemma is_failed_delete_entry: "is_failed (delete_entry m r) = (r \<noteq> None)"
  by (cases r) (simp_all add: is_failed_def delete_entry_def failed_entry_def HasPrefix_def)

lemma is_failed_tags_entry: "is_failed (tags_entry m r) = isl r"
  by (cases r) (simp_all add: is_failed_def tags_entry_def failed_entry_def HasPrefix_def)

lemma count_failed_map2:
  "length rs = length ms \<Longrightarrow> (\<And>m r. is_failed (mk m r) = bad r)
     \<Longrightarrow> length (filter is_failed (map2 mk ms rs)) = length (filter bad rs)"
  by (induction ms rs rule: list_induct2') auto



lemma delete_entry_fields:
  "length rs = length ms \<Longrightarrow>
     map entry_id (map2 delete_entry ms rs) = map ID ms
     \<and> map entry_name (map2 delete_entry ms rs) = map Name ms"
  by (induction ms rs rule: list_induct2')
     (auto simp add: delete_entry_def failed_entry_def split: option.splits)

lemma tags_entry_fields:
  "length rs = length ms \<Longrightarrow>
     map entry_id (map2 tags_entry ms rs) = map2 reported_id ms rs
     \<and> map entry_name (map2 tags_entry ms rs) = map2 reported_name ms rs"
  by (induction ms rs rule: list_induct2')
     (auto simp add: tags_entry_def failed_entry_def reported_id_def reported_name_def
           split: sum.splits)

text \<open>
  C2, as the code has it. Once the listing has succeeded, each of the three batch operations
  returns a report with exactly one entry per resolved monitor (the listed monitors that
  pass the service/env/namespace selection), in that order. The entry at a position is
  built from the monitor at that position and from the outcome of the operation run for
  it: a failure gives the monitor's own identifier and name with the status \<open>failed: \<close>
  followed by the error text, and the operation is still run for every later monitor. An
  entry of a deletion always carries the identifier and the name of its monitor; an entry
  of a tag operation that succeeded carries those of the monitor that the update returned.
  The number of failed entries is the number of operations that failed.
\<close>

theorem batch_reports_every_monitor:
  assumes listed: "ListMonitors c tags [] h = (Inr monitors, h1)"
  shows "(let resolved = filter (matchesFilters service env namespace) monitors;
              outs = outcomes (DeleteMonitor c) resolved h1
          in \<exists>results h2.
               DeleteMonitorsByFilter c service env namespace tags h = (Inr results, h2)
               \<and> length results = length resolved
               \<and> results = map2 delete_entry resolved outs
               \<and> map entry_id results = map ID resolved
               \<and> map entry_name results = map Name resolved
               \<and> length (filter is_failed results) = length (filter (\<lambda>r. r \<noteq> None) outs))
       \<and> (let resolved = filter (matchesFilters service env namespace) monitors;
                outs = outcomes (\<lambda>i. AddTagsToMonitor c i tagsToAdd) resolved h1
            in \<exists>results h2.
                 AddTagsToMonitors c service env namespace tags tagsToAdd h = (Inr results, h2)
                 \<and> length results = length resolved
                 \<and> results = map2 tags_entry resolved outs
                 \<and> map entry_id results = map2 reported_id resolved outs
                 \<and> map entry_name results = map2 reported_name resolved outs
                 \<and> length (filter is_failed results) = length (filter isl outs))
       \<and> (let resolved = filter (matchesFilters service env namespace) monitors;
                outs = outcomes (\<lambda>i. RemoveTagsFromMonitor c i tagsToRemove) resolved h1
            in \<exists>results h2.
                 RemoveTagsFromMonitors c service env namespace tags tagsToRemove h = (Inr results, h2)
                 \<and> length results = length resolved
                 \<and> results = map2 tags_entry resolved outs
                 \<and> map entry_id results = map2 reported_id resolved outs
                 \<and> map entry_name results = map2 reported_name resolved outs
                 \<and> length (filter is_failed results) = length (filter isl outs))"
proof -
  define resolved where "resolved = filter (matchesFilters service env namespace) monitors"
  define douts where "douts = outcomes (DeleteMonitor c) resolved h1"
  define aouts where "aouts = outcomes (\<lambda>i. AddTagsToMonitor c i tagsToAdd) resolved h1"
  define routs where "routs = outcomes (\<lambda>i. RemoveTagsFromMonitor c i tagsToRemove) resolved h1"
  have dlen: "length douts = length resolved" and alen: "length aouts = length resolved"
    and rlen: "length routs = length resolved"
    by (simp_all add: douts_def aouts_def routs_def outcomes_length)
  have d: "DeleteMonitorsByFilter c service env namespace tags h
             = (Inr (fst (delete_each c resolved [] h1)), snd (delete_each c resolved [] h1))"
    using listed by (simp add: DeleteMonitorsByFilter_def resolved_def split: prod.splits)
  have a: "AddTagsToMonitors c service env namespace tags tagsToAdd h
             = (Inr (fst (add_tags_each c tagsToAdd resolved [] h1)),
                snd (add_tags_each c tagsToAdd resolved [] h1))"
    using listed by (simp add: AddTagsToMonitors_def resolved_def split: prod.splits)
  have r: "RemoveTagsFromMonitors c service env namespace tags tagsToRemove h
             = (Inr (fst (remove_tags_each c tagsToRemove resolved [] h1)),
                snd (remove_tags_each c tagsToRemove resolved [] h1))"
    using listed by (simp add: RemoveTagsFromMonitors_def resolved_def split: prod.splits)
  have dres: "fst (delete_each c resolved [] h1) = map2 delete_entry resolved douts"
    by (simp add: delete_each_eq douts_def)
  have ares: "fst (add_tags_each c tagsToAdd resolved [] h1) = map2 tags_entry resolved aouts"
    by (simp add: add_tags_each_eq aouts_def)
  have rres: "fst (remove_tags_each c tagsToRemove resolved [] h1) = map2 tags_entry resolved routs"
    by (simp add: remove_tags_each_eq routs_def)
  have dcount: "length (filter is_failed (map2 delete_entry resolved douts))
                  = length (filter (\<lambda>r. r \<noteq> None) douts)"
    using dlen by (intro count_failed_map2) (simp_all add: is_failed_delete_entry)
  have acount: "length (filter is_failed (map2 tags_entry resolved aouts)) = length (filter isl aouts)"
    using alen by (intro count_failed_map2) (simp_all add: is_failed_tags_entry)
  have rcount: "length (filter is_failed (map2 tags_entry resolved routs)) = length (filter isl routs)"
    using rlen by (intro count_failed_map2) (simp_all add: is_failed_tags_entry)
  note dfields = delete_entry_fields [OF dlen]
  note afields = tags_entry_fields [OF alen]
  note rfields = tags_entry_fields [OF rlen]
  have D: "\<exists>results h2.
               DeleteMonitorsByFilter c service env namespace tags h = (Inr results, h2)
               \<and> length results = length resolved
               \<and> results = map2 delete_entry resolved douts
               \<and> map entry_id results = map ID resolved
               \<and> map entry_name results = map Name resolved
               \<and> length (filter is_failed results) = length (filter (\<lambda>r. r \<noteq> None) douts)"
    using d dres dcount dlen dfields by simp
  have A: "\<exists>results h2.
                 AddTagsToMonitors c service env namespace tags tagsToAdd h = (Inr results, h2)
                 \<and> length results = length resolved
                 \<and> results = map2 tags_entry resolved aouts
                 \<and> map entry_id results = map2 reported_id resolved aouts
                 \<and> map entry_name results = map2 reported_name resolved aouts
                 \<and> length (filter is_failed results) = length (filter isl aouts)"
    using a ares acount alen afields by simp
  have R: "\<exists>results h2.
                 RemoveTagsFromMonitors c service env namespace tags tagsToRemove h = (Inr results, h2)
                 \<and> length results = length resolved
                 \<and> results = map2 tags_entry resolved routs
                 \<and> map entry_id results = map2 reported_id resolved routs
                 \<and> map entry_name results = map2 reported_name resolved routs
                 \<and> length (filter is_failed results) = length (filter isl routs)"
    using r rres rcount rlen rfields by simp
  show ?thesis
    unfolding Let_def using D A R
    unfolding resolved_def douts_def aouts_def routs_def by blast
qed

theorem batch_reports_every_monitor_witness:
  "ListMonitors demo_api [] [] [] = (Inr demo_monitors, [GetMonitors None None])
   \<and> (\<exists>results h2.
         DeleteMonitorsByFilter demo_api ''web'' ''hml'' [] [] [] = (Inr results, h2)
         \<and> length results = 2
         \<and> map entry_id results = [1, 2]
         \<and> map entry_status results
             = [''deleted'', ''failed: failed to delete monitor: status 403, body: forbidden'']
         \<and> length (filter is_failed results) = 1)
   \<and> (\<exists>results h2.
         AddTagsToMonitors demo_api [] ''hml'' [] [] [''team:a''] [] = (Inr results, h2)
         \<and> length results = 3
         \<and> map entry_id results = [1, 2, 3]
         \<and> length (filter is_failed results) = 1)"
proof -
  have listed: "ListMonitors demo_api [] [] [] = (Inr demo_monitors, [GetMonitors None None])"
    by (simp add: demo_defs)
  have web: "filter (matchesFilters ''web'' ''hml'' []) demo_monitors = take 2 demo_monitors"
    by (simp add: demo_defs)
  have hml: "filter (matchesFilters [] ''hml'' []) demo_monitors = demo_monitors"
    by (simp add: demo_defs)
  have douts: "outcomes (DeleteMonitor demo_api) (take 2 demo_monitors) [GetMonitors None None]
                = [None, Some ''failed to delete monitor: status 403, body: forbidden'']"
    by (simp add: demo_defs)
  have aouts: "outcomes (\<lambda>i. AddTagsToMonitor demo_api i [''team:a'']) demo_monitors
                  [GetMonitors None None]
                = [Inr (mk_monitor 1 ''cpu'' [''service:web'', ''env:hml'', ''team:a''] ''OK''),
                   Inl ''failed to update monitor: status 403, body: forbidden'',
                   Inr (mk_monitor 3 ''disk'' [''service:db'', ''env:hml'', ''team:a''] ''Alert'')]"
    by (simp add: demo_defs)
  note inst1 = batch_reports_every_monitor [OF listed, of "''web''" "''hml''" "[]" "[]" "[]"]
  note inst2 = batch_reports_every_monitor [OF listed, of "[]" "''hml''" "[]" "[''team:a'']" "[]"]
  have d: "\<exists>results h2.
         DeleteMonitorsByFilter demo_api ''web'' ''hml'' [] [] [] = (Inr results, h2)
         \<and> length results = 2
         \<and> map entry_id results = [1, 2]
         \<and> map entry_status results
             = [''deleted'', ''failed: failed to delete monitor: status 403, body: forbidden'']
         \<and> length (filter is_failed results) = 1"
    using inst1 unfolding Let_def web douts
    by (auto simp add: demo_monitors_def mk_monitor_def delete_entry_def failed_entry_def)
  have a: "\<exists>results h2.
         AddTagsToMonitors demo_api [] ''hml'' [] [] [''team:a''] [] = (Inr results, h2)
         \<and> length results = 3
         \<and> map entry_id results = [1, 2, 3]
         \<and> length (filter is_failed results) = 1"
    using inst2 unfolding Let_def hml aouts
    by (auto simp add: demo_monitors_def mk_monitor_def tags_entry_def failed_entry_def)
  from listed d a show ?thesis by blast
qed

text \<open>
  C2, where the code departs from the claim as stated: the entry of a tag operation that
  succeeded takes its identifier and its name from the monitor that the update call
  returned, not from the monitor the operation was run for. Against a repository that
  answers every update with monitor 999, the batch over the monitors 1 and 2 reports two
  entries for monitor 999, which is not among the resolved monitors.
\<close>

theorem batch_entry_for_another_monitor:
  "fst (AddTagsToMonitors stray_api ''web'' [] [] [] [''team:a''] [])
     = Inr [\<lparr>entry_id = 999, entry_name = ''elsewhere'', entry_status = ''updated'',
              entry_tags = Some []\<rparr>,
            \<lparr>entry_id = 999, entry_name = ''elsewhere'', entry_status = ''updated'',
              entry_tags = Some []\<rparr>]
   \<and> filter (matchesFilters ''web'' [] []) demo_monitors = take 2 demo_monitors
   \<and> map ID demo_monitors = [1, 2, 3]"
  by (simp add: AddTagsToMonitors_def stray_api_def demo_defs)

section \<open>Create or update\<close>

text \<open>
  C4. Upsert lists the whole collection (no tag filter, no search text) and compares names
  for equality. When no listed monitor has the name, the lookup returns no monitor and no
  error, a create is sent and the flag is true. When one has, an update is sent to the
  identifier of the first such monitor and the flag is false.
\<close>

theorem UpsertMonitor_update_or_create:
  assumes listed: "list_reply c h None None = Inr monitors"
  shows "((\<forall>m \<in> set monitors. Name m \<noteq> Name monitor) \<longrightarrow>
            FindMonitorByName c (Name monitor) h = (Inr None, h @ [GetMonitors None None])
            \<and> UpsertMonitor c monitor h
                = ((create_reply c (h @ [GetMonitors None None]) monitor, True),
                   h @ [GetMonitors None None, PostMonitor monitor]))
       \<and> ((\<exists>m \<in> set monitors. Name m = Name monitor) \<longrightarrow>
            (\<exists>existing \<in> set monitors.
               Name existing = Name monitor
               \<and> find (\<lambda>m. Name m = Name monitor) monitors = Some existing
               \<and> FindMonitorByName c (Name monitor) h
                   = (Inr (Some existing), h @ [GetMonitors None None])
               \<and> UpsertMonitor c monitor h
                   = ((update_reply c (h @ [GetMonitors None None]) (ID existing) monitor, False),
                      h @ [GetMonitors None None, PutMonitor (ID existing) monitor])))"
proof -
  have lm: "ListMonitors c [] [] h = (Inr monitors, h @ [GetMonitors None None])"
    using listed by (simp add: ListMonitors_def)
  have fm: "FindMonitorByName c (Name monitor) h
              = (Inr (find (\<lambda>m. Name m = Name monitor) monitors), h @ [GetMonitors None None])"
    using lm by (simp add: FindMonitorByName_def)
  have absent: "(\<forall>m \<in> set monitors. Name m \<noteq> Name monitor) \<longrightarrow>
            FindMonitorByName c (Name monitor) h = (Inr None, h @ [GetMonitors None None])
            \<and> UpsertMonitor c monitor h
                = ((create_reply c (h @ [GetMonitors None None]) monitor, True),
                   h @ [GetMonitors None None, PostMonitor monitor])"
  proof
    assume "\<forall>m \<in> set monitors. Name m \<noteq> Name monitor"
    then have "find (\<lambda>m. Name m = Name monitor) monitors = None"
      by (simp add: find_None_iff)
    then show "FindMonitorByName c (Name monitor) h = (Inr None, h @ [GetMonitors None None])
            \<and> UpsertMonitor c monitor h
                = ((create_reply c (h @ [GetMonitors None None]) monitor, True),
                   h @ [GetMonitors None None, PostMonitor monitor])"
      using fm by (simp add: UpsertMonitor_def CreateMonitor_def)
  qed
  have present: "(\<exists>m \<in> set monitors. Name m = Name monitor) \<longrightarrow>
            (\<exists>existing \<in> set monitors.
               Name existing = Name monitor
               \<and> find (\<lambda>m. Name m = Name monitor) monitors = Some existing
               \<and> FindMonitorByName c (Name monitor) h
                   = (Inr (Some existing), h @ [GetMonitors None None])
               \<and> UpsertMonitor c monitor h
                   = ((update_reply c (h @ [GetMonitors None None]) (ID existing) monitor, False),
                      h @ [GetMonitors None None, PutMonitor (ID existing) monitor]))"
  proof
    assume "\<exists>m \<in> set monitors. Name m = Name monitor"
    then have "find (\<lambda>m. Name m = Name monitor) monitors \<noteq> None"
      by (auto simp: find_None_iff)
    then obtain existing where f: "find (\<lambda>m. Name m = Name monitor) monitors = Some existing"
      by auto
    then have mem: "existing \<in> set monitors" and nm: "Name existing = Name monitor"
      by (auto simp: find_Some_iff)
    have "UpsertMonitor c monitor h
            = ((update_reply c (h @ [GetMonitors None None]) (ID existing) monitor, False),
               h @ [GetMonitors None None, PutMonitor (ID existing) monitor])"
      using fm f by (simp add: UpsertMonitor_def UpdateMonitor_def)
    then show "\<exists>existing \<in> set monitors.
               Name existing = Name monitor
               \<and> find (\<lambda>m. Name m = Name monitor) monitors = Some existing
               \<and> FindMonitorByName c (Name monitor) h
                   = (Inr (Some existing), h @ [GetMonitors None None])
               \<and> UpsertMonitor c monitor h
                   = ((update_reply c (h @ [GetMonitors None None]) (ID existing) monitor, False),
                      h @ [GetMonitors None None, PutMonitor (ID existing) monitor])"
      using fm f mem nm by auto
  qed
  from absent present show ?thesis by (rule conjI)
qed


theorem UpsertMonitor_update_or_create_witness:
  "list_reply demo_api [] None None = Inr demo_monitors
   \<and> UpsertMonitor demo_api (mk_monitor 0 ''cpu'' [''service:web''] []) []
       = ((Inr (mk_monitor 1 ''cpu'' [''service:web''] []), False),
          [GetMonitors None None, PutMonitor 1 (mk_monitor 0 ''cpu'' [''service:web''] [])])
   \<and> UpsertMonitor demo_api (mk_monitor 0 ''net'' [] []) []
       = ((Inr (mk_monitor 4 ''net'' [] []), True),
          [GetMonitors None None, PostMonitor (mk_monitor 0 ''net'' [] [])])"
proof -
  have listed: "list_reply demo_api [] None None = Inr demo_monitors"
    by (simp add: demo_defs)
  have present: "\<exists>m \<in> set demo_monitors. Name m = Name (mk_monitor 0 ''cpu'' [''service:web''] [])"
    by (simp add: demo_defs)
  have absent: "\<forall>m \<in> set demo_monitors. Name m \<noteq> Name (mk_monitor 0 ''net'' [] [])"
    by (simp add: demo_defs)
  from UpsertMonitor_update_or_create [OF listed, of "mk_monitor 0 ''cpu'' [''service:web''] []"] present
  obtain existing where
    "find (\<lambda>m. Name m = Name (mk_monitor 0 ''cpu'' [''service:web''] [])) demo_monitors = Some existing"
    and "UpsertMonitor demo_api (mk_monitor 0 ''cpu'' [''service:web''] []) []
           = ((update_reply demo_api ([] @ [GetMonitors None None]) (ID existing)
                 (mk_monitor 0 ''cpu'' [''service:web''] []), False),
              [] @ [GetMonitors None None, PutMonitor (ID existing) (mk_monitor 0 ''cpu'' [''service:web''] [])])"
    by blast
  then have upd: "UpsertMonitor demo_api (mk_monitor 0 ''cpu'' [''service:web''] []) []
       = ((Inr (mk_monitor 1 ''cpu'' [''service:web''] []), False),
          [GetMonitors None None, PutMonitor 1 (mk_monitor 0 ''cpu'' [''service:web''] [])])"
    by (auto simp add: demo_defs)
  from UpsertMonitor_update_or_create [OF listed, of "mk_monitor 0 ''net'' [] []"] absent
  have "UpsertMonitor demo_api (mk_monitor 0 ''net'' [] []) []
          = ((create_reply demo_api ([] @ [GetMonitors None None]) (mk_monitor 0 ''net'' [] []), True),
             [] @ [GetMonitors None None, PostMonitor (mk_monitor 0 ''net'' [] [])])"
    by blast
  then have crt: "UpsertMonitor demo_api (mk_monitor 0 ''net'' [] []) []
       = ((Inr (mk_monitor 4 ''net'' [] []), True),
          [GetMonitors None None, PostMonitor (mk_monitor 0 ''net'' [] [])])"
    by (simp add: demo_defs)
  from listed upd crt show ?thesis by blast
qed


section \<open>State canonicalization\<close>

lemma HasPrefix_two_spaces:
  "HasPrefix s ''  '' = (\<exists>rest. s = CHR '' '' # CHR '' '' # rest)"
proof (cases s)
  case Nil
  then show ?thesis by (simp add: HasPrefix_def)
next
  case (Cons a s1)
  then show ?thesis by (cases s1) (auto simp add: HasPrefix_def)
qed

lemma ReplaceAll_single: "ReplaceAll s [c] [d] = map (\<lambda>x. if x = c then d else x) s"
  by (induction s) (simp_all add: HasPrefix_def)

lemma squeeze_Cons:
  "squeeze (a # s)
     = (case squeeze s of
          [] \<Rightarrow> [a]
        | b # t \<Rightarrow> if a = CHR '' '' \<and> b = CHR '' '' then b # t else a # b # t)"
proof (induction s arbitrary: a)
  case Nil
  show ?case by simp
next
  case (Cons b s)
  show ?case using Cons [of b] by (cases "squeeze s") (auto split: list.splits)
qed

lemma squeeze_ReplaceAll: "squeeze (ReplaceAll s ''  '' '' '') = squeeze s"
proof (induction s rule: length_induct)
  case (1 s)
  show ?case
  proof (cases "HasPrefix s ''  ''")
    case True
    then obtain rest where s: "s = CHR '' '' # CHR '' '' # rest"
      by (auto simp add: HasPrefix_two_spaces)
    have r: "ReplaceAll s ''  '' '' '' = CHR '' '' # ReplaceAll rest ''  '' '' ''"
      by (simp add: s HasPrefix_def)
    have ih: "squeeze (ReplaceAll rest ''  '' '' '') = squeeze rest"
      using 1 s by simp
    show ?thesis
      unfolding r unfolding s
      by (simp only: squeeze_Cons [of _ "ReplaceAll rest ''  '' '' ''"] squeeze_Cons [of _ "CHR '' '' # rest"]
            squeeze_Cons [of _ rest] ih) (simp split: list.splits)
  next
    case False
    show ?thesis
    proof (cases s)
      case Nil
      then show ?thesis by simp
    next
      case (Cons c cs)
      have r: "ReplaceAll s ''  '' '' '' = c # ReplaceAll cs ''  '' '' ''"
        using False Cons by simp
      have ih: "squeeze (ReplaceAll cs ''  '' '' '') = squeeze cs"
        using 1 Cons by simp
      show ?thesis
        unfolding r unfolding Cons
        by (simp only: squeeze_Cons [of c] ih)
    qed
  qed
qed

lemma squeeze_id: "\<not> Contains s ''  '' \<Longrightarrow> squeeze s = s"
proof (induction s rule: squeeze.induct)
  case (1 a b s)
  then show ?case by (auto simp add: HasPrefix_def)
qed simp_all

lemma collapse_spaces_squeeze: "collapse_spaces s = squeeze s"
proof (induction s rule: collapse_spaces.induct)
  case (1 s)
  show ?case
  proof (cases "Contains s ''  ''")
    case True
    with 1 show ?thesis by (simp add: collapse_spaces.simps [of s] squeeze_ReplaceAll)
  next
    case False
    then show ?thesis by (simp add: collapse_spaces.simps [of s] squeeze_id)
  qed
qed

lemma collapse_spaces_no_double: "\<not> Contains (collapse_spaces s) ''  ''"
proof (induction s rule: collapse_spaces.induct)
  case (1 s)
  show ?case
  proof (cases "Contains s ''  ''")
    case True
    with 1 show ?thesis by (simp add: collapse_spaces.simps [of s])
  next
    case False
    then show ?thesis by (simp add: collapse_spaces.simps [of s])
  qed
qed

lemma filter_state_loop_eq:
  "filter_state_loop lowerTable want ms acc
     = acc @ filter (\<lambda>m. canonicalMonitorState lowerTable (OverallState m) = want) ms"
  by (induction ms arbitrary: acc) auto

text \<open>
  C7, as the code has it. The canonical form of a state is computed in this order: the
  white space at both ends is removed (the Unicode white space, as \<open>TrimSpace\<close> does); every
  \<open>-\<close> and every \<open>_\<close> becomes a space; every run of the space character becomes one space;
  the letters are lowercased. Before the lowercasing the string holds no two adjacent
  spaces, no \<open>-\<close> and no \<open>_\<close>. The post-filter returns every monitor when the canonical desired
  state is empty, and otherwise exactly the monitors, in order, whose canonical overall
  state equals the canonical desired state. The three spellings of "no data" have the same
  canonical form, also with white space around them; a state of white space only has the
  empty canonical form; letters outside ASCII are lowercased as the case table says.
\<close>

theorem canonical_state_and_filter:
  "canonicalMonitorState lowerTable s
     = ToLower lowerTable (squeeze (separators_to_spaces (TrimSpace s)))
   \<and> \<not> Contains (squeeze (separators_to_spaces (TrimSpace s))) ''  ''
   \<and> CHR ''-'' \<notin> set (squeeze (separators_to_spaces (TrimSpace s)))
   \<and> CHR ''_'' \<notin> set (squeeze (separators_to_spaces (TrimSpace s)))
   \<and> filterMonitorsByState lowerTable monitors desiredState
       = (if canonicalMonitorState lowerTable desiredState = [] then monitors
          else filter (\<lambda>m. canonicalMonitorState lowerTable (OverallState m)
                              = canonicalMonitorState lowerTable desiredState) monitors)
   \<and> canonicalMonitorState lowerTable ''No-Data'' = ''no data''
   \<and> canonicalMonitorState lowerTable ''no_data'' = ''no data''
   \<and> canonicalMonitorState lowerTable ''No   Data'' = ''no data''
   \<and> canonicalMonitorState lowerTable
         ([CHR 0xC2, CHR 0xA0] @ '' No-Data'' @ [CHR 0xE2, CHR 0x80, CHR 0x83, CHR 0x0A]) = ''no data''
   \<and> canonicalMonitorState lowerTable [CHR 0xC2, CHR 0xA0] = []
   \<and> canonicalMonitorState (\<lambda>r. if r = 0xC9 then 0xE9 else if r = 0x212A then 0x6B else r)
         [CHR 0xC3, CHR 0x89, CHR ''T'', CHR ''-'', CHR 0xE2, CHR 0x84, CHR 0xAA]
       = [CHR 0xC3, CHR 0xA9, CHR ''t'', CHR '' '', CHR ''k'']"
proof -
  have eq: "canonicalMonitorState lowerTable s
     = ToLower lowerTable (squeeze (separators_to_spaces (TrimSpace s)))" for s
  proof -
    have "ReplaceAll (ReplaceAll x ''-'' '' '') ''_'' '' '' = separators_to_spaces x" for x
      by (induction x) (simp_all add: HasPrefix_def separators_to_spaces_def)
    then show ?thesis
      by (simp add: canonicalMonitorState_def collapse_spaces_squeeze)
  qed
  have nodouble: "\<not> Contains (squeeze (separators_to_spaces (TrimSpace s))) ''  ''"
    using collapse_spaces_no_double [of "separators_to_spaces (TrimSpace s)"]
    by (simp add: collapse_spaces_squeeze)
  have sub: "set (squeeze x) \<subseteq> set x" for x
    by (induction x rule: squeeze.induct) auto
  have nosep: "CHR ''-'' \<notin> set (squeeze (separators_to_spaces (TrimSpace s)))
     \<and> CHR ''_'' \<notin> set (squeeze (separators_to_spaces (TrimSpace s)))"
    using sub [of "separators_to_spaces (TrimSpace s)"]
    by (auto simp add: separators_to_spaces_def)
  have flt: "filterMonitorsByState lowerTable monitors desiredState
       = (if canonicalMonitorState lowerTable desiredState = [] then monitors
          else filter (\<lambda>m. canonicalMonitorState lowerTable (OverallState m)
                              = canonicalMonitorState lowerTable desiredState) monitors)"
    by (simp add: filterMonitorsByState_def Let_def filter_state_loop_eq)
  have e1: "canonicalMonitorState lowerTable ''No-Data'' = ''no data''"
    by (simp add: canonical_defs utf8_defs)
  have e2: "canonicalMonitorState lowerTable ''no_data'' = ''no data''"
    by (simp add: canonical_defs utf8_defs)
  have e3: "canonicalMonitorState lowerTable ''No   Data'' = ''no data''"
    by (simp add: canonical_defs utf8_defs)
  have e4: "canonicalMonitorState lowerTable
         ([CHR 0xC2, CHR 0xA0] @ '' No-Data'' @ [CHR 0xE2, CHR 0x80, CHR 0x83, CHR 0x0A]) = ''no data''"
    by (simp add: canonical_defs utf8_defs)
  have e5: "canonicalMonitorState lowerTable [CHR 0xC2, CHR 0xA0] = []"
    by (simp add: canonical_defs utf8_defs)
  have e6: "canonicalMonitorState (\<lambda>r. if r = 0xC9 then 0xE9 else if r = 0x212A then 0x6B else r)
         [CHR 0xC3, CHR 0x89, CHR ''T'', CHR ''-'', CHR 0xE2, CHR 0x84, CHR 0xAA]
       = [CHR 0xC3, CHR 0xA9, CHR ''t'', CHR '' '', CHR ''k'']"
    by (simp add: canonical_defs utf8_defs Map_def runes.simps unicode_ToLower_def)
  from eq [of s] nodouble nosep flt e1 e2 e3 e4 e5 e6 show ?thesis by blast
qed

text \<open>
  C7, where the code departs from the claim as stated. White space is trimmed before \<open>-\<close> and
  \<open>_\<close> become spaces, so a state that ends in \<open>_\<close> keeps a trailing space and differs from
  the same state without it; only runs of the space character are collapsed, so two tabs
  inside a state stay; and a desired state that is blank selects every monitor, whatever
  its state.
\<close>

theorem canonical_state_counterexample:
  "(\<forall>lowerTable.
      canonicalMonitorState lowerTable ''no_data_'' = ''no data ''
    \<and> canonicalMonitorState lowerTable ''no_data'' = ''no data''
    \<and> canonicalMonitorState lowerTable [CHR ''N'', CHR ''o'', CHR 0x09, CHR 0x09, CHR ''D'', CHR ''a'', CHR ''t'', CHR ''a'']
        = [CHR ''n'', CHR ''o'', CHR 0x09, CHR 0x09, CHR ''d'', CHR ''a'', CHR ''t'', CHR ''a'']
    \<and> filterMonitorsByState lowerTable [mk_monitor 1 ''cpu'' [] ''OK''] '' '' = [mk_monitor 1 ''cpu'' [] ''OK'']
    \<and> canonicalMonitorState lowerTable (OverallState (mk_monitor 1 ''cpu'' [] ''OK'')) = ''ok''
    \<and> canonicalMonitorState lowerTable '' '' = [])"
  by (simp add: canonical_defs utf8_defs filterMonitorsByState_def mk_monitor_def)


section \<open>Decoding timestamps\<close>

lemma digit_char: "d < 10 \<Longrightarrow> isDigit (char_of (48 + d)) \<and> digitVal (char_of (48 + d)) = d"
  by (simp add: isDigit_def digitVal_def)

lemma decimal_nat_digits: "list_all isDigit (decimal_nat n)"
proof (induction n rule: decimal_nat.induct)
  case (1 n)
  show ?case
  proof (cases "n < 10")
    case True
    then show ?thesis by (simp add: decimal_nat.simps [of n] digit_char)
  next
    case False
    moreover have "isDigit (char_of (48 + n mod 10))" by (simp add: digit_char)
    ultimately show ?thesis using 1 by (simp add: decimal_nat.simps [of n])
  qed
qed

lemma decimal_nat_nonempty: "decimal_nat n \<noteq> []"
  by (simp add: decimal_nat.simps [of n])

lemma decimal_nat_value: "foldl (\<lambda>acc c. acc * 10 + digitVal c) 0 (decimal_nat n) = n"
proof (induction n rule: decimal_nat.induct)
  case (1 n)
  show ?case
  proof (cases "n < 10")
    case True
    then show ?thesis by (simp add: decimal_nat.simps [of n] digit_char)
  next
    case False
    have "digitVal (char_of (48 + n mod 10)) = n mod 10" by (simp add: digit_char)
    with False 1 show ?thesis by (simp add: decimal_nat.simps [of n])
  qed
qed

lemma ParseUint_decimal_nat: "ParseUint (decimal_nat n) = (if n \<ge> 2 ^ 64 then None else Some n)"
  by (simp add: ParseUint_def decimal_nat_nonempty decimal_nat_digits decimal_nat_value)

lemma decimal_nat_hd: "isDigit (hd (decimal_nat n))"
  using decimal_nat_digits [of n] decimal_nat_nonempty [of n]
  by (cases "decimal_nat n") simp_all

lemma decimal_nat_no_sign: "hd (decimal_nat n) \<noteq> CHR ''-'' \<and> hd (decimal_nat n) \<noteq> CHR ''+''"
proof -
  have "\<not> isDigit CHR ''-''" and "\<not> isDigit CHR ''+''" by (simp_all add: isDigit_def)
  with decimal_nat_hd [of n] show ?thesis by metis
qed

lemma ParseInt_decimal:
  "ParseInt (decimal n) = (if - (2 ^ 63) \<le> n \<and> n < 2 ^ 63 then Some n else None)"
proof (cases "n < 0")
  case True
  then have "ParseInt (decimal n)
               = (if nat (- n) \<ge> 2 ^ 64 then None
                  else if nat (- n) > 2 ^ 63 then None else Some (- int (nat (- n))))"
    by (simp add: ParseInt_def decimal_def ParseUint_decimal_nat)
  also have "\<dots> = (if - (2 ^ 63) \<le> n \<and> n < 2 ^ 63 then Some n else None)"
    using True by auto
  finally show ?thesis .
next
  case False
  then have "ParseInt (decimal n)
               = (if nat n \<ge> 2 ^ 64 then None
                  else if nat n \<ge> 2 ^ 63 then None else Some (int (nat n)))"
    using decimal_nat_no_sign [of "nat n"] decimal_nat_nonempty [of "nat n"]
    by (simp add: ParseInt_def decimal_def ParseUint_decimal_nat)
  also have "\<dots> = (if - (2 ^ 63) \<le> n \<and> n < 2 ^ 63 then Some n else None)"
    using False by auto
  finally show ?thesis .
qed

lemma ParseInt_range: "ParseInt s = Some n \<Longrightarrow> - (2 ^ 63) \<le> n \<and> n < 2 ^ 63"
  by (auto simp add: ParseInt_def Let_def split: if_splits option.splits)


text \<open>
  C10, as the code has it. Decoding a timestamp never returns an error, and the value is
  always a signed 64-bit integer. From the decimal text of an integer \<open>n\<close>, as a JSON number
  or inside a JSON string, the value is \<open>n\<close> when \<open>n\<close> fits 64 bits and 0 when it does not.
  A number or string that \<open>ParseInt\<close> rejects (a fraction, a word) gives 0, and so do
  \<open>null\<close>, booleans, arrays and objects.
\<close>

theorem Timestamp_UnmarshalJSON_never_fails:
  "fst (Timestamp_UnmarshalJSON v) = None
   \<and> - (2 ^ 63) \<le> snd (Timestamp_UnmarshalJSON v) \<and> snd (Timestamp_UnmarshalJSON v) < 2 ^ 63
   \<and> snd (Timestamp_UnmarshalJSON (JNum (decimal n)))
       = (if - (2 ^ 63) \<le> n \<and> n < 2 ^ 63 then n else 0)
   \<and> snd (Timestamp_UnmarshalJSON (JStr (decimal n)))
       = (if - (2 ^ 63) \<le> n \<and> n < 2 ^ 63 then n else 0)
   \<and> snd (Timestamp_UnmarshalJSON (JNum s)) = (case ParseInt s of Some val \<Rightarrow> val | None \<Rightarrow> 0)
   \<and> snd (Timestamp_UnmarshalJSON (JStr s)) = (case ParseInt s of Some val \<Rightarrow> val | None \<Rightarrow> 0)
   \<and> snd (Timestamp_UnmarshalJSON JNull) = 0
   \<and> snd (Timestamp_UnmarshalJSON (JBool b)) = 0
   \<and> snd (Timestamp_UnmarshalJSON (JArr xs)) = 0
   \<and> snd (Timestamp_UnmarshalJSON (JObj kvs)) = 0
   \<and> snd (Timestamp_UnmarshalJSON (JNum ''1.5'')) = 0
   \<and> snd (Timestamp_UnmarshalJSON (JStr ''yesterday'')) = 0
   \<and> snd (Timestamp_UnmarshalJSON (JStr ''1700000000'')) = 1700000000
   \<and> snd (Timestamp_UnmarshalJSON (JNum ''1700000000'')) = 1700000000"
proof -
  have ok: "fst (Timestamp_UnmarshalJSON v) = None"
    by (simp add: Timestamp_UnmarshalJSON_def split: option.splits)
  have range: "- (2 ^ 63) \<le> snd (Timestamp_UnmarshalJSON v) \<and> snd (Timestamp_UnmarshalJSON v) < 2 ^ 63"
  proof (cases v)
    case (JNum lit)
    then show ?thesis
      using ParseInt_range [of lit]
      by (cases "ParseInt lit")
         (simp_all add: Timestamp_UnmarshalJSON_def unmarshal_string_def unmarshal_int64_def)
  next
    case (JStr str)
    then show ?thesis
      using ParseInt_range [of str]
      by (cases "ParseInt str")
         (simp_all add: Timestamp_UnmarshalJSON_def unmarshal_string_def unmarshal_int64_def)
  qed (simp_all add: Timestamp_UnmarshalJSON_def unmarshal_string_def unmarshal_int64_def ParseInt_def)
  have num: "snd (Timestamp_UnmarshalJSON (JNum s)) = (case ParseInt s of Some val \<Rightarrow> val | None \<Rightarrow> 0)"
    for s
    by (simp add: Timestamp_UnmarshalJSON_def unmarshal_string_def unmarshal_int64_def
          split: option.splits)
  have str: "snd (Timestamp_UnmarshalJSON (JStr s)) = (case ParseInt s of Some val \<Rightarrow> val | None \<Rightarrow> 0)"
    for s
    by (simp add: Timestamp_UnmarshalJSON_def unmarshal_string_def unmarshal_int64_def
          split: option.splits)
  have dnum: "snd (Timestamp_UnmarshalJSON (JNum (decimal n)))
       = (if - (2 ^ 63) \<le> n \<and> n < 2 ^ 63 then n else 0)"
    by (simp add: num ParseInt_decimal)
  have dstr: "snd (Timestamp_UnmarshalJSON (JStr (decimal n)))
       = (if - (2 ^ 63) \<le> n \<and> n < 2 ^ 63 then n else 0)"
    by (simp add: str ParseInt_decimal)
  have others: "snd (Timestamp_UnmarshalJSON JNull) = 0"
    "snd (Timestamp_UnmarshalJSON (JBool b)) = 0"
    "snd (Timestamp_UnmarshalJSON (JArr xs)) = 0"
    "snd (Timestamp_UnmarshalJSON (JObj kvs)) = 0"
    by (simp_all add: Timestamp_UnmarshalJSON_def unmarshal_string_def unmarshal_int64_def ParseInt_def)
  have p1: "ParseInt ''1.5'' = None" and p2: "ParseInt ''yesterday'' = None"
    and p3: "ParseInt ''1700000000'' = Some 1700000000"
    by (simp_all add: ParseInt_def ParseUint_def isDigit_def digitVal_def)
  have ex: "snd (Timestamp_UnmarshalJSON (JNum ''1.5'')) = 0"
    "snd (Timestamp_UnmarshalJSON (JStr ''yesterday'')) = 0"
    "snd (Timestamp_UnmarshalJSON (JStr ''1700000000'')) = 1700000000"
    "snd (Timestamp_UnmarshalJSON (JNum ''1700000000'')) = 1700000000"
    by (simp_all add: num str p1 p2 p3)
  from ok range dnum dstr num [of s] str [of s] others ex show ?thesis by blast
qed

text \<open>
  C10, where the code departs from the claim as stated: the JSON integer
  9223372036854775808, and the string holding it, decode to 0 and not to the integer.
\<close>

theorem Timestamp_UnmarshalJSON_out_of_range:
  "decimal 9223372036854775808 = ''9223372036854775808''
   \<and> Timestamp_UnmarshalJSON (JNum ''9223372036854775808'') = (None, 0)
   \<and> Timestamp_UnmarshalJSON (JStr ''9223372036854775808'') = (None, 0)
   \<and> snd (Timestamp_UnmarshalJSON (JNum ''9223372036854775808'')) \<noteq> 9223372036854775808"
  by (simp add: Timestamp_UnmarshalJSON_def unmarshal_string_def unmarshal_int64_def
        ParseInt_def ParseUint_def isDigit_def digitVal_def decimal_def decimal_nat.simps
        char_of_def bit_0)


section \<open>Customized tags and queries\<close>

lemma hasExactTag_iff: "hasExactTag tags want = (want \<in> set tags)"
  by (induction tags) auto

lemma append_missing_eq:
  "append_missing new tags = tags @ filter (\<lambda>t. t \<notin> set tags) (dedup_first new)"
proof (induction new arbitrary: tags)
  case Nil
  then show ?case by simp
next
  case (Cons x xs)
  show ?case
  proof (cases "x \<in> set tags")
    case True
    then have "filter (\<lambda>t. t \<notin> set tags) (filter (\<lambda>y. y \<noteq> x) (dedup_first xs))
                = filter (\<lambda>t. t \<notin> set tags) (dedup_first xs)"
      by (auto intro: filter_cong)
    with True Cons show ?thesis by (simp add: hasExactTag_iff)
  next
    case False
    have "filter (\<lambda>t. t \<notin> set (tags @ [x])) (dedup_first xs)
            = filter (\<lambda>t. t \<notin> set tags) (filter (\<lambda>y. y \<noteq> x) (dedup_first xs))"
      by (auto intro: filter_cong)
    with False Cons [of "tags @ [x]"] show ?thesis by (simp add: hasExactTag_iff)
  qed
qed

lemma set_dedup_first: "set (dedup_first xs) = set xs"
  by (induction xs) auto

lemma distinct_dedup_first: "distinct (dedup_first xs)"
  by (induction xs) (auto simp add: set_dedup_first)

lemma filter_dedup_first:
  "filter P (dedup_first (xs @ ys))
     = filter P (dedup_first xs) @ filter (\<lambda>t. P t \<and> t \<notin> set xs) (dedup_first ys)"
proof (induction xs)
  case Nil
  then show ?case by simp
next
  case (Cons x xs)
  have "filter (\<lambda>t. P t \<and> t \<notin> set xs) (filter (\<lambda>y. y \<noteq> x) (dedup_first ys))
          = filter (\<lambda>t. P t \<and> t \<notin> set (x # xs)) (dedup_first ys)"
    by (auto intro: filter_cong)
  moreover have "filter (\<lambda>y. y \<noteq> x) (filter P (dedup_first (xs @ ys)))
     = filter (\<lambda>y. y \<noteq> x) (filter P (dedup_first xs))
       @ filter (\<lambda>y. y \<noteq> x) (filter (\<lambda>t. P t \<and> t \<notin> set xs) (dedup_first ys))"
    using Cons by simp
  ultimately show ?case by (simp add: conj_commute)
qed

lemma customized_tags_eq:
  "customized_tags template service env namespace additionalTags
     = template_tags template
       @ filter (\<lambda>t. t \<notin> set (template_tags template))
           (dedup_first ([''service:'' @ service, ''env:'' @ env, ''namespace:'' @ namespace]
                          @ additionalTags))"
proof -
  define own where "own = template_tags template"
  define derived where "derived = [''service:'' @ service, ''env:'' @ env, ''namespace:'' @ namespace]"
  have step1: "append_missing derived own = own @ filter (\<lambda>t. t \<notin> set own) (dedup_first derived)"
    by (rule append_missing_eq)
  have "append_missing additionalTags (append_missing derived own)
          = append_missing derived own
            @ filter (\<lambda>t. t \<notin> set (append_missing derived own)) (dedup_first additionalTags)"
    by (rule append_missing_eq)
  also have "set (append_missing derived own) = set own \<union> set derived"
    by (auto simp add: step1 set_dedup_first)
  finally have "append_missing additionalTags (append_missing derived own)
          = own @ filter (\<lambda>t. t \<notin> set own) (dedup_first derived)
            @ filter (\<lambda>t. t \<notin> set own \<and> t \<notin> set derived) (dedup_first additionalTags)"
    by (simp add: step1)
  also have "\<dots> = own @ filter (\<lambda>t. t \<notin> set own) (dedup_first (derived @ additionalTags))"
    by (simp add: filter_dedup_first [of _ derived additionalTags])
  finally show ?thesis
    by (simp add: customized_tags_def own_def derived_def Let_def)
qed


lemma distinct_count_list:
  "distinct xs \<Longrightarrow> count_list xs t = (if t \<in> set xs then 1 else 0)"
  by (induction xs) auto

lemma string_entries_eq:
  "string_entries (map JStr own) tags = tags @ own"
  by (induction own arbitrary: tags) simp_all

lemma template_tags_unchanged:
  "k \<noteq> ''tags'' \<Longrightarrow> template_tags (m(k \<mapsto> v)) = template_tags m"
  by (simp add: template_tags_def)

lemma CustomizeTemplate_tags_field:
  "CustomizeTemplate upperTable template service env namespace additionalTags ''tags''
     = Some (JArr (map JStr (customized_tags template service env namespace additionalTags)))"
proof -
  have "customized_tags (m(k \<mapsto> v)) service env namespace additionalTags
          = customized_tags m service env namespace additionalTags" if "k \<noteq> ''tags''" for m k v
    using that by (simp add: customized_tags_def template_tags_unchanged)
  then show ?thesis
    by (simp add: CustomizeTemplate_def Let_def split: option.splits json.splits)
qed

text \<open>
  C8, as the code has it. The customized tag list is the template's own tags (the strings
  of its \<open>tags\<close> array; an entry that is not a string is not a tag and is left out), in
  their order, followed by those of \<open>service:\<close>, \<open>env:\<close>, \<open>namespace:\<close> and the extra tags,
  in that order, that are neither among the template's tags nor already appended. So the
  service tag occurs as often as the template holds it, and once if the template does not
  hold it: a template holding \<open>service:checkout\<close> once, customized for service \<open>checkout\<close>,
  ends with one.
\<close>

theorem CustomizeTemplate_tags:
  "CustomizeTemplate upperTable template service env namespace additionalTags ''tags''
     = Some (JArr (map JStr (customized_tags template service env namespace additionalTags)))
   \<and> customized_tags template service env namespace additionalTags
       = template_tags template
         @ filter (\<lambda>t. t \<notin> set (template_tags template))
             (dedup_first ([''service:'' @ service, ''env:'' @ env, ''namespace:'' @ namespace]
                            @ additionalTags))
   \<and> template_tags (template(''tags'' \<mapsto> JArr (map JStr own))) = own
   \<and> template_tags [''tags'' \<mapsto> JArr [JStr ''team:payments'', JNum ''5'', JStr ''tier:1'']]
       = [''team:payments'', ''tier:1'']
   \<and> count_list (customized_tags template service env namespace additionalTags)
         (''service:'' @ service)
       = (if ''service:'' @ service \<in> set (template_tags template)
          then count_list (template_tags template) (''service:'' @ service) else 1)
   \<and> CustomizeTemplate upperTable
         [''name'' \<mapsto> JStr ''{service} latency'',
          ''tags'' \<mapsto> JArr [JStr ''team:payments'', JStr ''service:checkout'']]
         ''checkout'' ''prd'' ''shop'' [''team:payments'', ''tier:1''] ''tags''
       = Some (JArr [JStr ''team:payments'', JStr ''service:checkout'', JStr ''env:prd'',
                     JStr ''namespace:shop'', JStr ''tier:1''])"
proof -
  define own0 where "own0 = template_tags template"
  define new where "new = [''service:'' @ service, ''env:'' @ env, ''namespace:'' @ namespace] @ additionalTags"
  have eq: "customized_tags template service env namespace additionalTags
              = own0 @ filter (\<lambda>t. t \<notin> set own0) (dedup_first new)"
    by (simp add: customized_tags_eq own0_def new_def)
  have tt: "template_tags (template(''tags'' \<mapsto> JArr (map JStr own))) = own"
    by (simp add: template_tags_def string_entries_eq)
  have nonstr: "template_tags [''tags'' \<mapsto> JArr [JStr ''team:payments'', JNum ''5'', JStr ''tier:1'']]
       = [''team:payments'', ''tier:1'']"
    by (simp add: template_tags_def)
  have "distinct (filter (\<lambda>t. t \<notin> set own0) (dedup_first new))"
    by (simp add: distinct_dedup_first)
  then have "count_list (filter (\<lambda>t. t \<notin> set own0) (dedup_first new)) (''service:'' @ service)
               = (if ''service:'' @ service \<in> set (filter (\<lambda>t. t \<notin> set own0) (dedup_first new))
                  then 1 else 0)"
    by (rule distinct_count_list)
  moreover have "''service:'' @ service \<in> set new" by (simp add: new_def)
  ultimately have cnt: "count_list (own0 @ filter (\<lambda>t. t \<notin> set own0) (dedup_first new))
                          (''service:'' @ service)
       = (if ''service:'' @ service \<in> set own0
          then count_list own0 (''service:'' @ service) else 1)"
    by (auto simp add: set_dedup_first count_list_0_iff)
  have ex: "CustomizeTemplate upperTable
         [''name'' \<mapsto> JStr ''{service} latency'',
          ''tags'' \<mapsto> JArr [JStr ''team:payments'', JStr ''service:checkout'']]
         ''checkout'' ''prd'' ''shop'' [''team:payments'', ''tier:1''] ''tags''
       = Some (JArr [JStr ''team:payments'', JStr ''service:checkout'', JStr ''env:prd'',
                     JStr ''namespace:shop'', JStr ''tier:1''])"
    by (simp add: CustomizeTemplate_tags_field customized_tags_def template_tags_def)
  show ?thesis
    using CustomizeTemplate_tags_field [of upperTable template service env namespace additionalTags]
      eq tt nonstr cnt ex
    unfolding own0_def new_def by simp
qed

text \<open>
  C8, where the code departs from the claim as stated: the template's own tags are taken
  over as they are, so a template that holds \<open>service:checkout\<close> twice ends with two.
\<close>

theorem CustomizeTemplate_repeated_template_tag:
  "(\<forall>upperTable.
      CustomizeTemplate upperTable
          [''tags'' \<mapsto> JArr [JStr ''service:checkout'', JStr ''service:checkout'']]
          ''checkout'' ''prd'' ''shop'' [] ''tags''
        = Some (JArr [JStr ''service:checkout'', JStr ''service:checkout'', JStr ''env:prd'',
                      JStr ''namespace:shop'']))
   \<and> count_list
         (customized_tags [''tags'' \<mapsto> JArr [JStr ''service:checkout'', JStr ''service:checkout'']]
            ''checkout'' ''prd'' ''shop'' [])
         ''service:checkout'' = 2"
  by (simp add: CustomizeTemplate_def customized_tags_def template_tags_def Let_def)

text \<open>
  C3, as the code has it. The query is rewritten by five replacements in this order:
  \<open>by {service}\<close> becomes \<open>by __SERVICE_PRESERVE__\<close>, \<open>{service}\<close> becomes the service,
  \<open>__SERVICE_PRESERVE__\<close> becomes \<open>{service}\<close> again, then \<open>{env}\<close> and \<open>{namespace}\<close> are
  replaced, the environment as given. The query of the specification's example comes out
  as the specification says.
\<close>

theorem CustomizeTemplate_query:
  "CustomizeTemplate upperTable (template(''query'' \<mapsto> JStr q)) service env namespace additionalTags ''query''
     = Some (JStr
         (ReplaceAll
            (ReplaceAll
               (ReplaceAll
                  (ReplaceAll
                     (ReplaceAll q ''by {service}'' ''by __SERVICE_PRESERVE__'')
                     ''{service}'' service)
                  ''__SERVICE_PRESERVE__'' ''{service}'')
               ''{env}'' env)
            ''{namespace}'' namespace))
   \<and> CustomizeTemplate upperTable
         [''query'' \<mapsto> JStr ''sum(last_5m):sum:http.requests{service:{service}} by {service}'']
         ''checkout'' ''prd'' ''shop'' [] ''query''
       = Some (JStr ''sum(last_5m):sum:http.requests{service:checkout} by {service}'')
   \<and> CustomizeTemplate upperTable
         [''query'' \<mapsto> JStr ''avg:cpu{env:{env},kube_namespace:{namespace}} by {service}'']
         ''checkout'' ''prd'' ''shop'' [] ''query''
       = Some (JStr ''avg:cpu{env:prd,kube_namespace:shop} by {service}'')"
proof -
  have field: "CustomizeTemplate upperTable (m(''query'' \<mapsto> JStr x)) service env namespace additionalTags ''query''
                 = Some (JStr (customized_query x service env namespace))"
    for m x service env namespace additionalTags
    by (simp add: CustomizeTemplate_def Let_def split: option.splits json.splits)
  have general: "CustomizeTemplate upperTable (template(''query'' \<mapsto> JStr q)) service env namespace additionalTags ''query''
     = Some (JStr
         (ReplaceAll
            (ReplaceAll
               (ReplaceAll
                  (ReplaceAll
                     (ReplaceAll q ''by {service}'' ''by __SERVICE_PRESERVE__'')
                     ''{service}'' service)
                  ''__SERVICE_PRESERVE__'' ''{service}'')
               ''{env}'' env)
            ''{namespace}'' namespace))"
    by (simp add: field customized_query_def del: ReplaceAll.simps)
  have e1: "customized_query ''sum(last_5m):sum:http.requests{service:{service}} by {service}''
              ''checkout'' ''prd'' ''shop''
            = ''sum(last_5m):sum:http.requests{service:checkout} by {service}''"
    by (simp add: customized_query_def HasPrefix_def)
  have e2: "customized_query ''avg:cpu{env:{env},kube_namespace:{namespace}} by {service}''
              ''checkout'' ''prd'' ''shop''
            = ''avg:cpu{env:prd,kube_namespace:shop} by {service}''"
    by (simp add: customized_query_def HasPrefix_def)
  from general field [of Map.empty] e1 e2 show ?thesis by simp
qed

text \<open>
  C3, where the code departs from the claim as stated: the protected text is restored
  before \<open>{env}\<close> and \<open>{namespace}\<close> are replaced, not after. A namespace that reads like
  the protected text stays as it is, where the order of the claim would restore it too.
\<close>

theorem query_substitution_order_counterexample:
  "(\<forall>upperTable.
      CustomizeTemplate upperTable [''query'' \<mapsto> JStr ''{namespace}'']
          ''checkout'' ''prd'' ''by __SERVICE_PRESERVE__'' [] ''query''
        = Some (JStr ''by __SERVICE_PRESERVE__''))
   \<and> query_substitution_as_specified ''{namespace}'' ''checkout'' ''prd'' ''by __SERVICE_PRESERVE__''
       = ''by {service}''"
  by (simp add: CustomizeTemplate_def customized_query_def query_substitution_as_specified_def
        HasPrefix_def Let_def)


section \<open>Template files\<close>

text \<open>
  C5, as the code has it. A file holding a JSON object is loaded as the templates of its
  \<open>templates\<close> array when that array decodes and is not empty. In every other case it is
  loaded as one template named \<open>Single Template\<close> whose config is the object, unless the
  object holds a number out of the range of \<open>float64\<close>, which is an error. A file holding
  \<open>null\<close> is loaded as one template with a nil config. A file holding an array, a string, a
  number or a boolean is an error. The examples: a \<open>templates\<close> member that is not an array,
  an empty one, one template, a number out of range without and with a \<open>templates\<close> array,
  keys in another case and with U+017F for \<open>s\<close>, and a \<open>templates\<close> member given three
  times.
\<close>

theorem LoadTemplateFromJSON_single_template:
  "LoadTemplateFromJSON templateFile (Document (JObj members))
     = (case unmarshal_TemplateFile (JObj members) of
          Some (t # ts) \<Rightarrow> Inr (t # ts)
        | _ \<Rightarrow>
          (case number_error (JObj members) of
             None \<Rightarrow> Inr [\<lparr>TName = ''Single Template'', TConfig = Some (object_map members)\<rparr>]
           | Some err \<Rightarrow> Inl (''invalid JSON in template file '' @ templateFile @ '': '' @ err)))
   \<and> LoadTemplateFromJSON templateFile (Document JNull)
       = Inr [\<lparr>TName = ''Single Template'', TConfig = None\<rparr>]
   \<and> isl (LoadTemplateFromJSON templateFile (Document (JArr xs)))
   \<and> isl (LoadTemplateFromJSON templateFile (Document (JStr s)))
   \<and> isl (LoadTemplateFromJSON templateFile (Document (JNum n)))
   \<and> isl (LoadTemplateFromJSON templateFile (Document (JBool b)))
   \<and> LoadTemplateFromJSON ''t.json''
         (Document (JObj [(''query'', JStr ''avg:cpu{*}''), (''templates'', JStr ''none'')]))
       = Inr [\<lparr>TName = ''Single Template'',
               TConfig = Some (object_map [(''query'', JStr ''avg:cpu{*}''), (''templates'', JStr ''none'')])\<rparr>]
   \<and> LoadTemplateFromJSON ''t.json'' (Document (JObj [(''templates'', JArr [])]))
       = Inr [\<lparr>TName = ''Single Template'', TConfig = Some (object_map [(''templates'', JArr [])])\<rparr>]
   \<and> LoadTemplateFromJSON ''t.json''
         (Document (JObj [(''templates'', JArr [JObj [(''name'', JStr ''cpu''), (''config'', JNull)]])]))
       = Inr [\<lparr>TName = ''cpu'', TConfig = None\<rparr>]
   \<and> LoadTemplateFromJSON ''t.json''
         (Document (JObj [(''name'', JStr ''cpu''), (''threshold'', JNum ''1e999'')]))
       = Inl ''invalid JSON in template file t.json: json: cannot unmarshal number 1e999 into Go value of type float64''
   \<and> LoadTemplateFromJSON ''t.json''
         (Document (JObj [(''templates'', JArr [JObj [(''name'', JStr ''cpu'')]]),
                          (''threshold'', JNum ''1e999'')]))
       = Inr [\<lparr>TName = ''cpu'', TConfig = None\<rparr>]
   \<and> LoadTemplateFromJSON ''t.json''
         (Document (JObj [(''template'' @ [CHR 0xC5, CHR 0xBF], JArr [JObj [(''NAME'', JStr ''cpu'')]])]))
       = Inr [\<lparr>TName = ''cpu'', TConfig = None\<rparr>]
   \<and> LoadTemplateFromJSON ''t.json''
         (Document (JObj [(''templates'', JArr [JObj [(''name'', JStr ''a'')], JObj [(''name'', JStr ''b'')]]),
                          (''templates'', JArr [JObj [(''config'', JObj [])]]),
                          (''templates'', JArr [JObj [], JObj []])]))
       = Inr [\<lparr>TName = ''a'', TConfig = Some Map.empty\<rparr>, \<lparr>TName = ''b'', TConfig = None\<rparr>]"
proof -
  have obj: "LoadTemplateFromJSON templateFile (Document (JObj members))
     = (case unmarshal_TemplateFile (JObj members) of
          Some (t # ts) \<Rightarrow> Inr (t # ts)
        | _ \<Rightarrow>
          (case number_error (JObj members) of
             None \<Rightarrow> Inr [\<lparr>TName = ''Single Template'', TConfig = Some (object_map members)\<rparr>]
           | Some err \<Rightarrow> Inl (''invalid JSON in template file '' @ templateFile @ '': '' @ err)))"
    for templateFile members
    by (simp add: LoadTemplateFromJSON_def single_template_def unmarshal_map_def
          split: option.splits list.splits)
  have null: "LoadTemplateFromJSON templateFile (Document JNull)
       = Inr [\<lparr>TName = ''Single Template'', TConfig = None\<rparr>]"
    by (simp add: LoadTemplateFromJSON_def single_template_def unmarshal_map_def
          unmarshal_TemplateFile_def)
  have others: "isl (LoadTemplateFromJSON templateFile (Document (JArr xs)))"
    "isl (LoadTemplateFromJSON templateFile (Document (JStr s)))"
    "isl (LoadTemplateFromJSON templateFile (Document (JNum n)))"
    "isl (LoadTemplateFromJSON templateFile (Document (JBool b)))"
    by (simp_all add: LoadTemplateFromJSON_def single_template_def unmarshal_map_def
          unmarshal_TemplateFile_def)
  have e1: "LoadTemplateFromJSON ''t.json''
         (Document (JObj [(''query'', JStr ''avg:cpu{*}''), (''templates'', JStr ''none'')]))
       = Inr [\<lparr>TName = ''Single Template'',
               TConfig = Some (object_map [(''query'', JStr ''avg:cpu{*}''), (''templates'', JStr ''none'')])\<rparr>]"
    unfolding obj by (simp add: decode_defs utf8_defs)
  have e2: "LoadTemplateFromJSON ''t.json'' (Document (JObj [(''templates'', JArr [])]))
       = Inr [\<lparr>TName = ''Single Template'', TConfig = Some (object_map [(''templates'', JArr [])])\<rparr>]"
    unfolding obj by (simp add: decode_defs utf8_defs)
  have e3: "LoadTemplateFromJSON ''t.json''
         (Document (JObj [(''templates'', JArr [JObj [(''name'', JStr ''cpu''), (''config'', JNull)]])]))
       = Inr [\<lparr>TName = ''cpu'', TConfig = None\<rparr>]"
    unfolding obj by (simp add: decode_defs utf8_defs)
  have e4: "LoadTemplateFromJSON ''t.json''
         (Document (JObj [(''name'', JStr ''cpu''), (''threshold'', JNum ''1e999'')]))
       = Inl ''invalid JSON in template file t.json: json: cannot unmarshal number 1e999 into Go value of type float64''"
    unfolding obj by (simp add: decode_defs utf8_defs float_defs)
  have e5: "LoadTemplateFromJSON ''t.json''
         (Document (JObj [(''templates'', JArr [JObj [(''name'', JStr ''cpu'')]]),
                          (''threshold'', JNum ''1e999'')]))
       = Inr [\<lparr>TName = ''cpu'', TConfig = None\<rparr>]"
    unfolding obj by (simp add: decode_defs utf8_defs)
  have e6: "LoadTemplateFromJSON ''t.json''
         (Document (JObj [(''template'' @ [CHR 0xC5, CHR 0xBF], JArr [JObj [(''NAME'', JStr ''cpu'')]])]))
       = Inr [\<lparr>TName = ''cpu'', TConfig = None\<rparr>]"
    unfolding obj by (simp add: decode_defs utf8_defs)
  have e7: "LoadTemplateFromJSON ''t.json''
         (Document (JObj [(''templates'', JArr [JObj [(''name'', JStr ''a'')], JObj [(''name'', JStr ''b'')]]),
                          (''templates'', JArr [JObj [(''config'', JObj [])]]),
                          (''templates'', JArr [JObj [], JObj []])]))
       = Inr [\<lparr>TName = ''a'', TConfig = Some Map.empty\<rparr>, \<lparr>TName = ''b'', TConfig = None\<rparr>]"
    unfolding obj by (simp add: decode_defs utf8_defs object_map_def)
  show ?thesis
    using obj [of templateFile members] null others e1 e2 e3 e4 e5 e6 e7 by simp
qed

text \<open>
  C5, where the code departs from the claim as stated: an array and a string are valid
  JSON and match neither template shape, and loading them fails.
\<close>

theorem LoadTemplateFromJSON_array_counterexample:
  "LoadTemplateFromJSON ''t.json'' (Document (JArr []))
     = Inl ''invalid JSON in template file t.json: json: cannot unmarshal array into Go value of type map[string]interface {}''
   \<and> LoadTemplateFromJSON ''t.json'' (Document (JStr ''cpu''))
     = Inl ''invalid JSON in template file t.json: json: cannot unmarshal string into Go value of type map[string]interface {}''"
  by (simp add: LoadTemplateFromJSON_def single_template_def unmarshal_map_def
        unmarshal_TemplateFile_def kind_name_def)


section \<open>Validation of the command flags\<close>

text \<open>
  C6. When \<open>--query\<close> is given together with \<open>--service\<close>, \<open>--env\<close>, \<open>--namespace\<close> or
  \<open>--filter-tags\<close>, \<open>add-tags\<close> and \<open>remove-tags\<close> return a validation error and the history
  of requests is the one they started with: nothing was sent. With at least one tag and no
  monitor id the error is the one about \<open>--query\<close>.
\<close>

theorem query_with_filter_rejected_before_any_call:
  assumes "flagQuery f \<noteq> []"
    and "flagService f \<noteq> [] \<or> flagEnv f \<noteq> [] \<or> flagNamespace f \<noteq> [] \<or> flagFilterTags f \<noteq> []"
  shows "(\<exists>err. runAddTags lowerTable getenv c f h = (Some err, h) \<and> err \<in> set validation_errors)
       \<and> (\<exists>err. runRemoveTags lowerTable getenv c f h = (Some err, h) \<and> err \<in> set validation_errors)
       \<and> (flagTag f \<noteq> [] \<and> flagMonitorID f \<le> 0 \<longrightarrow>
            runAddTags lowerTable getenv c f h
              = (Some ''cannot use --query together with other filter flags (--service, --env, --namespace, --filter-tags)'', h)
            \<and> runRemoveTags lowerTable getenv c f h
              = (Some ''cannot use --query together with other filter flags (--service, --env, --namespace, --filter-tags)'', h))"
proof -
  from assms have add: "\<exists>err. runAddTags lowerTable getenv c f h = (Some err, h) \<and> err \<in> set validation_errors"
    by (auto simp add: runAddTags_def validation_errors_def)
  from assms have remove: "\<exists>err. runRemoveTags lowerTable getenv c f h = (Some err, h) \<and> err \<in> set validation_errors"
    by (auto simp add: runRemoveTags_def validation_errors_def)
  from assms have both: "flagTag f \<noteq> [] \<and> flagMonitorID f \<le> 0 \<longrightarrow>
            runAddTags lowerTable getenv c f h
              = (Some ''cannot use --query together with other filter flags (--service, --env, --namespace, --filter-tags)'', h)
            \<and> runRemoveTags lowerTable getenv c f h
              = (Some ''cannot use --query together with other filter flags (--service, --env, --namespace, --filter-tags)'', h)"
    by (auto simp add: runAddTags_def runRemoveTags_def)
  from add remove both show ?thesis by blast
qed

theorem query_with_filter_rejected_witness:
  "flagQuery \<lparr>flagMonitorID = 0, flagService = ''web'', flagEnv = [], flagNamespace = [],
               flagFilterTags = [], flagQuery = ''service:(a OR b)'', flagStatus = [],
               flagTag = [''team:a'']\<rparr> \<noteq> []
   \<and> runAddTags (\<lambda>r. r) (\<lambda>name. ''0123456789abcdef'') demo_api
         \<lparr>flagMonitorID = 0, flagService = ''web'', flagEnv = [], flagNamespace = [],
          flagFilterTags = [], flagQuery = ''service:(a OR b)'', flagStatus = [],
          flagTag = [''team:a'']\<rparr> []
       = (Some ''cannot use --query together with other filter flags (--service, --env, --namespace, --filter-tags)'', [])
   \<and> runRemoveTags (\<lambda>r. r) (\<lambda>name. ''0123456789abcdef'') demo_api
         \<lparr>flagMonitorID = 0, flagService = ''web'', flagEnv = [], flagNamespace = [],
          flagFilterTags = [], flagQuery = ''service:(a OR b)'', flagStatus = [],
          flagTag = [''team:a'']\<rparr> []
       = (Some ''cannot use --query together with other filter flags (--service, --env, --namespace, --filter-tags)'', [])
   \<and> runAddTags (\<lambda>r. r) (\<lambda>name. ''0123456789abcdef'') demo_api
         \<lparr>flagMonitorID = 0, flagService = [], flagEnv = [], flagNamespace = [],
          flagFilterTags = [], flagQuery = ''service:(a OR b)'', flagStatus = ''ok'',
          flagTag = [''team:a'']\<rparr> []
       = (None,
          [GetMonitors None (Some ''service:(a OR b)''),
           GetMonitorById 1,
           PutMonitor 1 (mk_monitor 1 ''cpu'' [''service:web'', ''env:hml'', ''team:a''] ''OK'')])"
proof -
  define f where "f = \<lparr>flagMonitorID = 0, flagService = ''web'', flagEnv = [], flagNamespace = [],
               flagFilterTags = [], flagQuery = ''service:(a OR b)'', flagStatus = [],
               flagTag = [''team:a'']\<rparr>"
  have q: "flagQuery f \<noteq> []" by (simp add: f_def)
  have s: "flagService f \<noteq> [] \<or> flagEnv f \<noteq> [] \<or> flagNamespace f \<noteq> [] \<or> flagFilterTags f \<noteq> []"
    by (simp add: f_def)
  have pre: "flagTag f \<noteq> [] \<and> flagMonitorID f \<le> 0" by (simp add: f_def)
  from query_with_filter_rejected_before_any_call [OF q s, of "\<lambda>r. r" "\<lambda>name. ''0123456789abcdef''" demo_api "[]"] pre
  have rejected: "runAddTags (\<lambda>r. r) (\<lambda>name. ''0123456789abcdef'') demo_api f []
              = (Some ''cannot use --query together with other filter flags (--service, --env, --namespace, --filter-tags)'', [])
            \<and> runRemoveTags (\<lambda>r. r) (\<lambda>name. ''0123456789abcdef'') demo_api f []
              = (Some ''cannot use --query together with other filter flags (--service, --env, --namespace, --filter-tags)'', [])"
    by blast
  have ok: "canonicalMonitorState (\<lambda>r. r) ''ok'' = ''ok''"
    "canonicalMonitorState (\<lambda>r. r) ''OK'' = ''ok''"
    "canonicalMonitorState (\<lambda>r. r) ''No Data'' = ''no data''"
    "canonicalMonitorState (\<lambda>r. r) ''Alert'' = ''alert''"
    by (simp_all add: canonical_defs utf8_defs)
  have accepted: "runAddTags (\<lambda>r. r) (\<lambda>name. ''0123456789abcdef'') demo_api
         \<lparr>flagMonitorID = 0, flagService = [], flagEnv = [], flagNamespace = [],
          flagFilterTags = [], flagQuery = ''service:(a OR b)'', flagStatus = ''ok'',
          flagTag = [''team:a'']\<rparr> []
       = (None,
          [GetMonitors None (Some ''service:(a OR b)''),
           GetMonitorById 1,
           PutMonitor 1 (mk_monitor 1 ''cpu'' [''service:web'', ''env:hml'', ''team:a''] ''OK'')])"
    by (simp add: runAddTags_def NewClient_def filterMonitorsByState_def ok demo_defs)
  from q rejected accepted show ?thesis unfolding f_def by simp
qed


end
